theory Spec2Isabelle
  imports Complex_Main
begin

section \<open>JavaScript values and the runtime the server code calls\<close>

text \<open>
  Request payloads reach the server as parsed JSON. Numbers are restricted to integers;
  the entries of an object are listed in property order and carry distinct keys.
\<close>

datatype json =
    JNull
  | JBool bool
  | JNum int
  | JStr string
  | JArr "json list"
  | JObj "(string \<times> json) list"

text \<open>JavaScript truthiness, as used by \<^verbatim>\<open>x || y\<close> and \<^verbatim>\<open>!x\<close>.\<close>

fun truthy :: "json \<Rightarrow> bool" where
  "truthy JNull = False"
| "truthy (JBool b) = b"
| "truthy (JNum n) = (n \<noteq> 0)"
| "truthy (JStr s) = (s \<noteq> [])"
| "truthy (JArr xs) = True"
| "truthy (JObj kvs) = True"

text \<open>\<^verbatim>\<open>v || {}\<close> for an optional property \<open>v\<close> (\<open>None\<close> is \<^verbatim>\<open>undefined\<close>).\<close>

definition orEmptyObject :: "json option \<Rightarrow> json" where
  "orEmptyObject v = (case v of None \<Rightarrow> JObj [] | Some j \<Rightarrow> if truthy j then j else JObj [])"

text \<open>\<^verbatim>\<open>s.substring(0, n)\<close>, \<^verbatim>\<open>s.includes(c)\<close> and \<^verbatim>\<open>s.lastIndexOf(c)\<close>
  for a one-character \<open>c\<close>; \<open>lastIndexOf\<close> is \<open>None\<close> where JavaScript returns -1.\<close>

definition substring0 :: "string \<Rightarrow> nat \<Rightarrow> string" where
  "substring0 s n = take n s"

definition includes' :: "string \<Rightarrow> char \<Rightarrow> bool" where
  "includes' s c = (c \<in> set s)"

fun lastIndexOf :: "string \<Rightarrow> char \<Rightarrow> nat option" where
  "lastIndexOf [] c = None"
| "lastIndexOf (x # xs) c =
     (case lastIndexOf xs c of
        Some i \<Rightarrow> Some (Suc i)
      | None \<Rightarrow> if x = c then Some 0 else None)"

text \<open>Decimal rendering of integers, as in a template literal or \<^verbatim>\<open>String(n)\<close>.\<close>

definition digit :: "nat \<Rightarrow> char" where
  "digit d = char_of (48 + d)"

fun showNat :: "nat \<Rightarrow> string" where
  "showNat n = (if n < 10 then [digit n] else showNat (n div 10) @ [digit (n mod 10)])"

definition showInt :: "int \<Rightarrow> string" where
  "showInt i = (if i < 0 then ''-'' @ showNat (nat (- i)) else showNat (nat i))"

text \<open>\<^verbatim>\<open>xs.join(sep)\<close> on strings.\<close>

fun join :: "string \<Rightarrow> string list \<Rightarrow> string" where
  "join sep [] = []"
| "join sep [x] = x"
| "join sep (x # y # ys) = x @ sep @ join sep (y # ys)"

text \<open>
  The conversion of a value to a string, as a template literal does it: an array joins
  its elements with commas (\<^verbatim>\<open>null\<close> elements give the empty string), an object
  gives \<^verbatim>\<open>[object Object]\<close>.
\<close>

fun toString :: "json \<Rightarrow> string" where
  "toString JNull = ''null''"
| "toString (JBool b) = (if b then ''true'' else ''false'')"
| "toString (JNum n) = showInt n"
| "toString (JStr s) = s"
| "toString (JArr xs) = join '','' (map (\<lambda>x. if x = JNull then [] else toString x) xs)"
| "toString (JObj kvs) = ''[object Object]''"

text \<open>
  The own enumerable properties of a value, as \<^verbatim>\<open>Object.entries\<close> and the object
  spread \<^verbatim>\<open>{...v}\<close> see them: an array and a string are indexed from 0.
\<close>

definition ownEntries :: "json \<Rightarrow> (string \<times> json) list" where
  "ownEntries v =
     (case v of
        JObj kvs \<Rightarrow> kvs
      | JArr xs \<Rightarrow> zip (map showNat [0..<length xs]) xs
      | JStr s \<Rightarrow> zip (map showNat [0..<length s]) (map (\<lambda>c. JStr [c]) s)
      | _ \<Rightarrow> [])"

text \<open>
  The built-ins of the JavaScript runtime that the engine calls are parameters of the model:
  \<^item> \<open>RegExp p\<close> is \<^verbatim>\<open>new RegExp(p, 'i')\<close>: \<open>None\<close> when the constructor throws a
    SyntaxError, otherwise the predicate \<^verbatim>\<open>regex.test\<close>;
  \<^item> \<open>JSON_stringify\<close> is \<^verbatim>\<open>JSON.stringify\<close>;
  \<^item> \<open>inherited k\<close> is, for a property name \<open>k\<close> that every object literal inherits from
    \<^verbatim>\<open>Object.prototype\<close> (\<^verbatim>\<open>constructor\<close>, \<^verbatim>\<open>toString\<close>, ...), the text that
    the inherited value converts to; \<open>None\<close> for every other name.
\<close>

record js_runtime =
  RegExp :: "string \<Rightarrow> (string \<Rightarrow> bool) option"
  JSON_stringify :: "json \<Rightarrow> string"
  inherited :: "string \<Rightarrow> string option"

datatype js_error = SyntaxError | TypeError

section \<open>server/waf/engine.ts\<close>

record WafRule =
  id' :: string
  pattern :: string
  targetField :: string
  severity :: string
  category :: string
  enabled :: bool

text \<open>
  The request is the object as it was received: its own properties, in their order. The
  interface of the engine declares \<^verbatim>\<open>method\<close>, \<^verbatim>\<open>path\<close>, \<^verbatim>\<open>headers\<close>,
  \<^verbatim>\<open>body\<close> and \<^verbatim>\<open>query\<close> with their types; the ingestion route reads
  \<^verbatim>\<open>clientIp\<close> from the same object; a property of any other name is \<open>Further\<close>.
  An object has each name at most once, and a further property has none of the six names.
\<close>

datatype Property =
    Method string
  | Path string
  | Headers json
  | Body json
  | Query json
  | ClientIp string
  | Further string json

type_synonym RequestData = "Property list"

text \<open>Reading a property: \<open>None\<close> is \<^verbatim>\<open>undefined\<close>, the value of an absent property.\<close>

fun firstOf :: "('a \<Rightarrow> 'b option) \<Rightarrow> 'a list \<Rightarrow> 'b option" where
  "firstOf f [] = None"
| "firstOf f (x # xs) = (case f x of Some y \<Rightarrow> Some y | None \<Rightarrow> firstOf f xs)"

definition method' :: "RequestData \<Rightarrow> string option" where
  "method' request = firstOf (\<lambda>p. case p of Method m \<Rightarrow> Some m | _ \<Rightarrow> None) request"

definition path :: "RequestData \<Rightarrow> string option" where
  "path request = firstOf (\<lambda>p. case p of Path s \<Rightarrow> Some s | _ \<Rightarrow> None) request"

definition headers :: "RequestData \<Rightarrow> json option" where
  "headers request = firstOf (\<lambda>p. case p of Headers h \<Rightarrow> Some h | _ \<Rightarrow> None) request"

definition body :: "RequestData \<Rightarrow> json option" where
  "body request = firstOf (\<lambda>p. case p of Body b \<Rightarrow> Some b | _ \<Rightarrow> None) request"

definition query :: "RequestData \<Rightarrow> json option" where
  "query request = firstOf (\<lambda>p. case p of Query q \<Rightarrow> Some q | _ \<Rightarrow> None) request"

definition clientIp :: "RequestData \<Rightarrow> string option" where
  "clientIp request = firstOf (\<lambda>p. case p of ClientIp ip \<Rightarrow> Some ip | _ \<Rightarrow> None) request"

record Match =
  ruleId :: string
  field' :: string
  value' :: string
  severity' :: string

datatype Action = Allow | Block | Challenge

text \<open>
  The reason is a template literal; each constructor stands for one template with the
  numbers spliced into it:
  \<^item> \<open>Passed\<close>: \<^verbatim>\<open>Request passed all checks\<close>
  \<^item> \<open>ExceededBlock s t\<close>: \<^verbatim>\<open>Threat score s exceeded block threshold t\<close>
  \<^item> \<open>ExceededChallenge s t\<close>: \<^verbatim>\<open>Threat score s exceeded challenge threshold t\<close>
  \<^item> \<open>RequiresMonitoring s\<close>: \<^verbatim>\<open>Threat score s requires monitoring\<close>
\<close>

datatype Reason =
    Passed
  | ExceededBlock int real
  | ExceededChallenge int real
  | RequiresMonitoring int

record AnalysisResult =
  action :: Action
  score :: int
  matches :: "Match list"
  reason :: Reason

record Thresholds =
  blockThreshold :: real
  challengeThreshold :: real
  monitorThreshold :: real

text \<open>The private field \<^verbatim>\<open>customRules\<close> is the whole state of the engine.\<close>

type_synonym WafEngine = "WafRule list"

definition setCustomRules :: "WafRule list \<Rightarrow> WafEngine" where
  "setCustomRules rules = filter enabled rules"

record DefaultPattern =
  dp_id :: string
  dp_pattern :: string
  dp_field :: string
  dp_severity :: string
  dp_score :: int

text \<open>The sources of the four regular-expression literals; \<open>bs\<close> is the backslash.\<close>

definition bs :: string where
  "bs = [CHR 0x5C]"

definition defaultPatterns :: "DefaultPattern list" where
  "defaultPatterns =
    [ \<lparr>dp_id = ''sql-injection'',
       dp_pattern = ''('' @ bs @ ''b(SELECT|INSERT|UPDATE|DELETE|DROP|UNION|ALTER)'' @ bs
                    @ ''b.*'' @ bs @ ''b(FROM|INTO|WHERE|TABLE)'' @ bs @ ''b)'',
       dp_field = ''query'', dp_severity = ''high'', dp_score = 80\<rparr>,
      \<lparr>dp_id = ''xss-basic'',
       dp_pattern = ''<script[^>]*>.*?<'' @ bs @ ''/script>'',
       dp_field = ''body'', dp_severity = ''high'', dp_score = 70\<rparr>,
      \<lparr>dp_id = ''path-traversal'',
       dp_pattern = bs @ ''.'' @ bs @ ''.('' @ bs @ ''/|'' @ bs @ bs @ '')'',
       dp_field = ''path'', dp_severity = ''medium'', dp_score = 50\<rparr>,
      \<lparr>dp_id = ''cmd-injection'',
       dp_pattern = '';|'' @ bs @ ''||&|`|'' @ bs @ ''$'' @ bs @ ''('',
       dp_field = ''query'', dp_severity = ''high'', dp_score = 75\<rparr> ]"

definition allRules :: "WafEngine \<Rightarrow> WafRule list" where
  "allRules customRules =
     map (\<lambda>p. \<lparr>id' = dp_id p, pattern = dp_pattern p, targetField = dp_field p,
                severity = dp_severity p, category = ''owasp'', enabled = True\<rparr>)
         defaultPatterns
     @ customRules"

record SearchableContent =
  sc_path :: "string option"
  sc_query :: string
  sc_body :: string
  sc_headers :: string
  sc_request :: string

text \<open>
  The request object as \<^verbatim>\<open>JSON.stringify(request)\<close> sees it: every own property,
  in the order of the received object.
\<close>

definition propertyEntry :: "Property \<Rightarrow> string \<times> json" where
  "propertyEntry p =
     (case p of
        Method m \<Rightarrow> (''method'', JStr m)
      | Path s \<Rightarrow> (''path'', JStr s)
      | Headers h \<Rightarrow> (''headers'', h)
      | Body b \<Rightarrow> (''body'', b)
      | Query q \<Rightarrow> (''query'', q)
      | ClientIp ip \<Rightarrow> (''clientIp'', JStr ip)
      | Further k v \<Rightarrow> (k, v))"

definition requestJson :: "RequestData \<Rightarrow> json" where
  "requestJson request = JObj (map propertyEntry request)"

definition searchableContent :: "js_runtime \<Rightarrow> RequestData \<Rightarrow> SearchableContent" where
  "searchableContent rt request =
     \<lparr>sc_path = path request,
      sc_query = JSON_stringify rt (orEmptyObject (query request)),
      sc_body = JSON_stringify rt (orEmptyObject (body request)),
      sc_headers = JSON_stringify rt (orEmptyObject (headers request)),
      sc_request = JSON_stringify rt (requestJson request)\<rparr>"

text \<open>
  \<^verbatim>\<open>searchableContent[rule.targetField] || ''\<close>. One of the five own keys gives its
  string (the empty string for an absent path), a name inherited from the prototype gives
  a value that is not a string (\<open>NotAString t\<close>, with \<open>t\<close> the text it converts to), any
  other name gives \<^verbatim>\<open>undefined\<close> and so the empty string.
\<close>

datatype Content = Text string | NotAString string

definition targetContent :: "js_runtime \<Rightarrow> SearchableContent \<Rightarrow> string \<Rightarrow> Content" where
  "targetContent rt sc key =
     (if key = ''path'' then Text (case sc_path sc of None \<Rightarrow> [] | Some p \<Rightarrow> p)
      else if key = ''query'' then Text (sc_query sc)
      else if key = ''body'' then Text (sc_body sc)
      else if key = ''headers'' then Text (sc_headers sc)
      else if key = ''request'' then Text (sc_request sc)
      else case inherited rt key of
             Some t \<Rightarrow> NotAString t
           | None \<Rightarrow> Text [])"

definition severityScore :: "string \<Rightarrow> int" where
  "severityScore sev =
     (if sev = ''critical'' then 100
      else if sev = ''high'' then 75
      else if sev = ''medium'' then 50
      else 25)"

text \<open>
  The loop over \<^verbatim>\<open>allRules\<close>, with \<^verbatim>\<open>matches\<close> and \<^verbatim>\<open>totalScore\<close> as
  accumulators. The constructor of the regular expression may throw; so does
  \<^verbatim>\<open>targetContent.substring\<close> when the content is not a string and the rule fires.
\<close>

fun scanRules ::
  "js_runtime \<Rightarrow> SearchableContent \<Rightarrow> WafRule list \<Rightarrow> Match list \<Rightarrow> int
     \<Rightarrow> js_error + (Match list \<times> int)" where
  "scanRules rt sc [] ms totalScore = Inr (ms, totalScore)"
| "scanRules rt sc (rule # rest) ms totalScore =
     (if \<not> enabled rule then scanRules rt sc rest ms totalScore
      else case RegExp rt (pattern rule) of
             None \<Rightarrow> Inl SyntaxError
           | Some test \<Rightarrow>
               (case targetContent rt sc (targetField rule) of
                  Text s \<Rightarrow>
                    if test s
                    then scanRules rt sc rest
                           (ms @ [\<lparr>ruleId = id' rule, field' = targetField rule,
                                   value' = substring0 s 100, severity' = severity rule\<rparr>])
                           (totalScore + severityScore (severity rule))
                    else scanRules rt sc rest ms totalScore
                | NotAString t \<Rightarrow>
                    if test t then Inl TypeError
                    else scanRules rt sc rest ms totalScore))"

definition decide :: "int \<Rightarrow> Thresholds \<Rightarrow> Action \<times> Reason" where
  "decide totalScore thresholds =
     (if of_int totalScore \<ge> blockThreshold thresholds
      then (Block, ExceededBlock totalScore (blockThreshold thresholds))
      else if of_int totalScore \<ge> challengeThreshold thresholds
      then (Challenge, ExceededChallenge totalScore (challengeThreshold thresholds))
      else if of_int totalScore \<ge> monitorThreshold thresholds
      then (Allow, RequiresMonitoring totalScore)
      else (Allow, Passed))"

definition analyzeRequest ::
  "js_runtime \<Rightarrow> WafEngine \<Rightarrow> RequestData \<Rightarrow> Thresholds \<Rightarrow> js_error + AnalysisResult" where
  "analyzeRequest rt customRules request thresholds =
     (case scanRules rt (searchableContent rt request) (allRules customRules) [] 0 of
        Inl e \<Rightarrow> Inl e
      | Inr (ms, totalScore) \<Rightarrow>
          let clamped = min 100 totalScore;
              (act, why) = decide clamped thresholds
          in Inr \<lparr>action = act, score = clamped, matches = ms, reason = why\<rparr>)"

section \<open>server/middleware.ts\<close>

text \<open>An HTTP response: \<^verbatim>\<open>res.status(code).json(payload)\<close>.\<close>

datatype HttpResponse = Json nat json

record RateRecord =
  count :: int
  resetTime :: int

type_synonym RateLimitStore = "string \<rightharpoonup> RateRecord"

datatype Outcome = Respond HttpResponse | Next

text \<open>The periodic cleanup: every entry whose window ended before \<open>now\<close> is deleted.\<close>

definition cleanup :: "int \<Rightarrow> RateLimitStore \<Rightarrow> RateLimitStore" where
  "cleanup now store =
     (\<lambda>k. case store k of
            None \<Rightarrow> None
          | Some v \<Rightarrow> if resetTime v < now then None else Some v)"

text \<open>
  The tail of the middleware: with probability 1/100 the cleanup runs, then
  \<^verbatim>\<open>next()\<close> is called. \<open>random\<close> is \<^verbatim>\<open>Math.random()\<close>.
\<close>

definition cleanupAndNext :: "int \<Rightarrow> real \<Rightarrow> RateLimitStore \<Rightarrow> Outcome \<times> RateLimitStore" where
  "cleanupAndNext now random store =
     (Next, if random < 0.01 then cleanup now store else store)"

text \<open>
  One call of the middleware returned by \<^verbatim>\<open>rateLimit(windowMs, maxRequests)\<close>, on the
  module-level store. \<open>now\<close> is \<^verbatim>\<open>Date.now()\<close>; \<open>ip\<close> and \<open>route\<close> are
  \<^verbatim>\<open>req.ip\<close> and \<^verbatim>\<open>req.path\<close>.
\<close>

definition rateLimit ::
  "int \<Rightarrow> int \<Rightarrow> string \<Rightarrow> string \<Rightarrow> int \<Rightarrow> real \<Rightarrow> RateLimitStore
     \<Rightarrow> Outcome \<times> RateLimitStore" where
  "rateLimit windowMs maxRequests ip route now random store =
     (let key = ip @ ''-'' @ route;
          fresh = store(key \<mapsto> \<lparr>count = 1, resetTime = now + windowMs\<rparr>)
      in case store key of
           Some record \<Rightarrow>
             if resetTime record > now
             then if count record \<ge> maxRequests
                  then (Respond (Json 429
                          (JObj [(''message'',
                                  JStr ''Too many requests, please try again later'')])),
                        store)
                  else cleanupAndNext now random
                         (store(key \<mapsto> record\<lparr>count := count record + 1\<rparr>))
             else cleanupAndNext now random fresh
         | None \<Rightarrow> cleanupAndNext now random fresh)"

text \<open>The limiter of the login route: \<^verbatim>\<open>rateLimit(60000, 5)\<close>.\<close>

definition loginRateLimit ::
  "string \<Rightarrow> string \<Rightarrow> int \<Rightarrow> real \<Rightarrow> RateLimitStore \<Rightarrow> Outcome \<times> RateLimitStore" where
  "loginRateLimit = rateLimit 60000 5"

text \<open>A sequence of calls, each with its caller, route, clock and random draw.\<close>

fun rateLimitCalls ::
  "int \<Rightarrow> int \<Rightarrow> (string \<times> string \<times> int \<times> real) list \<Rightarrow> RateLimitStore
     \<Rightarrow> Outcome list \<times> RateLimitStore" where
  "rateLimitCalls windowMs maxRequests [] store = ([], store)"
| "rateLimitCalls windowMs maxRequests ((ip, route, now, random) # calls) store =
     (let (out, store') = rateLimit windowMs maxRequests ip route now random store;
          (outs, store'') = rateLimitCalls windowMs maxRequests calls store'
      in (out # outs, store''))"

section \<open>server/storage.ts\<close>

datatype ActionTaken = allow | monitor | challenge | deny

record Tenant =
  tenant_id :: string
  tenant_isActive :: bool
  tenant_retentionDays :: int
  tenant_anonymizeIpAfterDays :: int
  tenant_scrubCookies :: "bool option"
  tenant_scrubAuthHeaders :: "bool option"

record Policy =
  policy_tenantId :: "string option"
  policy_blockThreshold :: "real option"
  policy_challengeThreshold :: "real option"
  policy_monitorThreshold :: "real option"

text \<open>A row of \<^verbatim>\<open>waf_rules\<close>: the fields the engine reads, the tenant scope and the
  declared score.\<close>

record StoredRule = WafRule +
  rule_tenantId :: "string option"
  rule_name :: string
  rule_score :: int

record Request =
  req_id :: string
  req_tenantId :: string
  req_timestamp :: int
  req_method :: "string option"
  req_path :: "string option"
  req_clientIp :: "string option"
  req_userAgent :: "json option"
  req_responseCode :: int
  req_actionTaken :: ActionTaken
  req_headersJson :: json
  req_bodyPreview :: "string option"
  req_queryString :: "string option"
  req_wafHitsJson :: "Match list"

record Analysis =
  analysis_id :: string
  analysis_requestId :: string
  analysis_matchedRulesJson :: "Match list"
  analysis_totalScore :: int
  analysis_suggestedAction :: ActionTaken
  analysis_finalAction :: ActionTaken
  analysis_processingTimeMs :: "int option"
  analysis_matchCount :: nat

record Alert =
  alert_id :: string
  alert_tenantId :: string
  alert_severity :: "string option"
  alert_type :: string
  alert_title :: string
  alert_message :: string
  alert_isDismissed :: bool

record Storage =
  tenants :: "Tenant list"
  policies :: "Policy list"
  wafRules :: "StoredRule list"
  requests :: "Request list"
  analyses :: "Analysis list"
  alerts :: "Alert list"

definition getTenant :: "Storage \<Rightarrow> string \<Rightarrow> Tenant option" where
  "getTenant db tid = find (\<lambda>t. tenant_id t = tid) (tenants db)"

definition getPolicyByTenant :: "Storage \<Rightarrow> string \<Rightarrow> Policy option" where
  "getPolicyByTenant db tid = find (\<lambda>p. policy_tenantId p = Some tid) (policies db)"

definition getRulesByTenant :: "Storage \<Rightarrow> string option \<Rightarrow> StoredRule list" where
  "getRulesByTenant db tid = filter (\<lambda>r. rule_tenantId r = tid) (wafRules db)"

definition createRequest :: "Request \<Rightarrow> Storage \<Rightarrow> Storage" where
  "createRequest r db = db\<lparr>requests := requests db @ [r]\<rparr>"

definition createAnalysis :: "Analysis \<Rightarrow> Storage \<Rightarrow> Storage" where
  "createAnalysis a db = db\<lparr>analyses := analyses db @ [a]\<rparr>"

definition createAlert :: "Alert \<Rightarrow> Storage \<Rightarrow> Storage" where
  "createAlert a db = db\<lparr>alerts := alerts db @ [a]\<rparr>"

text \<open>
  The address transformation inside \<^verbatim>\<open>anonymizeOldIPs\<close>. Where \<^verbatim>\<open>lastIndexOf\<close>
  returns -1, \<^verbatim>\<open>substring(0, -1)\<close> is the empty string.
\<close>

definition cutLast :: "string \<Rightarrow> char \<Rightarrow> string" where
  "cutLast ip c = (case lastIndexOf ip c of Some i \<Rightarrow> substring0 ip i | None \<Rightarrow> [])"

definition anonIp :: "string \<Rightarrow> string" where
  "anonIp ip =
     (if includes' ip CHR '':'' then cutLast ip CHR '':'' @ '':0''
      else if includes' ip CHR ''.'' then cutLast ip CHR ''.'' @ ''.0''
      else ip)"

definition dayMs :: int where
  "dayMs = 24 * 60 * 60 * 1000"

text \<open>\<^verbatim>\<open>if (request.clientIp)\<close>: the address is present and not empty.\<close>

definition hasClientIp :: "Request \<Rightarrow> bool" where
  "hasClientIp r = (case req_clientIp r of None \<Rightarrow> False | Some ip \<Rightarrow> ip \<noteq> [])"

definition anonymizeRow :: "string \<Rightarrow> int \<Rightarrow> Request \<Rightarrow> Request" where
  "anonymizeRow tid cutoffDate r =
     (if req_tenantId r = tid \<and> req_timestamp r \<le> cutoffDate \<and> hasClientIp r
      then r\<lparr>req_clientIp := map_option anonIp (req_clientIp r)\<rparr>
      else r)"

definition anonymizeOldIPs :: "string \<Rightarrow> int \<Rightarrow> int \<Rightarrow> Storage \<Rightarrow> nat \<times> Storage" where
  "anonymizeOldIPs tid anonymizeDays now db =
     (let cutoffDate = now - anonymizeDays * dayMs
      in (length (filter (\<lambda>r. req_tenantId r = tid \<and> req_timestamp r \<le> cutoffDate
                               \<and> hasClientIp r) (requests db)),
          db\<lparr>requests := map (anonymizeRow tid cutoffDate) (requests db)\<rparr>))"

definition deleteOldRequests :: "string \<Rightarrow> int \<Rightarrow> int \<Rightarrow> Storage \<Rightarrow> nat \<times> Storage" where
  "deleteOldRequests tid retentionDays now db =
     (let cutoffDate = now - retentionDays * dayMs;
          old = (\<lambda>r. req_tenantId r = tid \<and> req_timestamp r \<le> cutoffDate)
      in (length (filter old (requests db)),
          db\<lparr>requests := filter (\<lambda>r. \<not> old r) (requests db)\<rparr>))"

text \<open>The counters of \<^verbatim>\<open>getDashboardStats\<close> (the list of recent alerts is left out).\<close>

record DashboardStats =
  totalRequests :: nat
  blockedRequests :: nat
  flaggedRequests :: nat
  allowedRequests :: nat
  blockPercentage :: real
  activeTenants :: nat
  activeRules :: nat

definition countRequests :: "Storage \<Rightarrow> int \<Rightarrow> (Request \<Rightarrow> bool) \<Rightarrow> nat" where
  "countRequests db since p =
     length (filter (\<lambda>r. req_timestamp r \<ge> since \<and> p r) (requests db))"

definition getDashboardStats :: "int \<Rightarrow> Storage \<Rightarrow> DashboardStats" where
  "getDashboardStats now db =
     (let twentyFourHoursAgo = now - dayMs;
          requestStats = countRequests db twentyFourHoursAgo (\<lambda>r. True);
          blocked = countRequests db twentyFourHoursAgo (\<lambda>r. req_actionTaken r = deny);
          flagged = countRequests db twentyFourHoursAgo (\<lambda>r. req_actionTaken r = monitor);
          allowed = countRequests db twentyFourHoursAgo (\<lambda>r. req_actionTaken r = allow)
      in \<lparr>totalRequests = requestStats,
          blockedRequests = blocked,
          flaggedRequests = flagged,
          allowedRequests = allowed,
          blockPercentage =
            (if requestStats > 0 then (real blocked / real requestStats) * 100 else 0),
          activeTenants = length (filter tenant_isActive (tenants db)),
          activeRules = length (filter enabled (wafRules db))\<rparr>)"

section \<open>server/routes.ts\<close>

definition scrubHeaders :: "json \<Rightarrow> bool \<Rightarrow> bool \<Rightarrow> json" where
  "scrubHeaders hs scrubCookies scrubAuthHeaders =
     JObj (filter
       (\<lambda>(k, v).
          \<not> (scrubCookies \<and> k \<in> set [''cookie'', ''set-cookie''])
          \<and> \<not> (scrubAuthHeaders
                \<and> k \<in> set [''authorization'', ''x-api-key'', ''x-auth-token'',
                              ''x-access-token'']))
       (ownEntries hs))"

text \<open>
  Modelled from the spec: the broadcast hub \<^verbatim>\<open>server/waf/sse.ts\<close> is not part of the
  sources; its two entry points \<^verbatim>\<open>broadcastRequest\<close> and \<^verbatim>\<open>broadcastAlert\<close>
  are modelled as appending the event to the log of what was delivered to subscribers.
\<close>

datatype SseEvent =
    RequestEvent Request
  | AlertEvent string "string option" string string

text \<open>The server: the storage, the module-level engine and the broadcast log.\<close>

record Server =
  db :: Storage
  wafEngine :: WafEngine
  sseLog :: "SseEvent list"

definition broadcastRequest :: "Request \<Rightarrow> Server \<Rightarrow> Server" where
  "broadcastRequest r srv = srv\<lparr>sseLog := sseLog srv @ [RequestEvent r]\<rparr>"

definition broadcastAlert :: "Alert \<Rightarrow> Server \<Rightarrow> Server" where
  "broadcastAlert a srv =
     srv\<lparr>sseLog := sseLog srv
            @ [AlertEvent (alert_id a) (alert_severity a) (alert_title a) (alert_tenantId a)]\<rparr>"

record IngressBody =
  body_tenantId :: "string option"
  body_request :: "RequestData option"

definition errorResponse :: "nat \<Rightarrow> string \<Rightarrow> HttpResponse" where
  "errorResponse code msg = Json code (JObj [(''message'', JStr msg)])"

definition actionName :: "Action \<Rightarrow> string" where
  "actionName a = (case a of Allow \<Rightarrow> ''allow'' | Block \<Rightarrow> ''block'' | Challenge \<Rightarrow> ''challenge'')"

definition responseCodeOf :: "Action \<Rightarrow> int" where
  "responseCodeOf a = (if a = Block then 403 else if a = Challenge then 429 else 200)"

text \<open>\<^verbatim>\<open>analysis.action === "block" ? "deny" : analysis.action\<close>\<close>

definition storedAction :: "Action \<Rightarrow> ActionTaken" where
  "storedAction a = (if a = Block then deny else case a of Allow \<Rightarrow> allow | _ \<Rightarrow> challenge)"

text \<open>\<^verbatim>\<open>incomingRequest.body?.substring(0, 500) || null\<close>: a body that is neither absent
  nor a string has no \<^verbatim>\<open>substring\<close> method, and the call throws.\<close>

definition bodyPreview :: "json option \<Rightarrow> js_error + string option" where
  "bodyPreview b =
     (case b of
        None \<Rightarrow> Inr None
      | Some JNull \<Rightarrow> Inr None
      | Some (JStr s) \<Rightarrow> Inr (if substring0 s 500 = [] then None else Some (substring0 s 500))
      | Some _ \<Rightarrow> Inl TypeError)"

definition queryString :: "json option \<Rightarrow> string option" where
  "queryString q =
     (let text = join ''&'' (map (\<lambda>(k, v). k @ ''='' @ toString v)
                                 (ownEntries (orEmptyObject q)))
      in if text = [] then None else Some text)"

text \<open>\<^verbatim>\<open>incomingRequest.headers?.["user-agent"]\<close>\<close>

definition userAgent :: "json option \<Rightarrow> json option" where
  "userAgent hs = (case hs of Some (JObj kvs) \<Rightarrow> map_of kvs ''user-agent'' | _ \<Rightarrow> None)"

text \<open>The thresholds of a policy, each with its default:
  \<^verbatim>\<open>policy?.blockThreshold ?? 70\<close>, and 50 and 30 for the other two.\<close>

definition policyThresholds :: "Policy option \<Rightarrow> Thresholds" where
  "policyThresholds policy =
     \<lparr>blockThreshold =
        (case Option.bind policy policy_blockThreshold of Some t \<Rightarrow> t | None \<Rightarrow> 70),
      challengeThreshold =
        (case Option.bind policy policy_challengeThreshold of Some t \<Rightarrow> t | None \<Rightarrow> 50),
      monitorThreshold =
        (case Option.bind policy policy_monitorThreshold of Some t \<Rightarrow> t | None \<Rightarrow> 30)\<rparr>"

text \<open>
  The handler of \<^verbatim>\<open>POST /api/waf/ingress\<close>, in the order of its statements. \<open>now\<close>
  is the clock and \<open>ids\<close> are the identifiers the storage generates for the request, the
  analysis and the alert. An exception anywhere in the handler is caught and answered with
  status 500; what was written before it stays written. The result of the engine has no
  \<^verbatim>\<open>riskLevel\<close>, no \<^verbatim>\<open>processingTimeMs\<close>, and its matches have no
  \<^verbatim>\<open>category\<close> and no \<^verbatim>\<open>ruleName\<close>: those reads give \<^verbatim>\<open>undefined\<close>.
\<close>

text \<open>The headers to store, after the privacy settings of the tenant.\<close>

definition headersToStore :: "Tenant \<Rightarrow> RequestData \<Rightarrow> json" where
  "headersToStore tenant incomingRequest =
     (let scrubC = (case tenant_scrubCookies tenant of Some b \<Rightarrow> b | None \<Rightarrow> False);
          scrubA = (case tenant_scrubAuthHeaders tenant of Some b \<Rightarrow> b | None \<Rightarrow> False)
      in if scrubC \<or> scrubA
         then scrubHeaders (orEmptyObject (headers incomingRequest)) scrubC scrubA
         else orEmptyObject (headers incomingRequest))"

text \<open>The argument of \<^verbatim>\<open>storage.createRequest\<close>, with the generated identifier.\<close>

definition requestRecord ::
  "int \<Rightarrow> string \<Rightarrow> Tenant \<Rightarrow> string \<Rightarrow> RequestData \<Rightarrow> AnalysisResult \<Rightarrow> string option
     \<Rightarrow> Request" where
  "requestRecord now requestId tenant tenantId incomingRequest analysis preview =
     \<lparr>req_id = requestId,
      req_tenantId = tenantId,
      req_timestamp = now,
      req_method = method' incomingRequest,
      req_path = path incomingRequest,
      req_clientIp = clientIp incomingRequest,
      req_userAgent = userAgent (headers incomingRequest),
      req_responseCode = responseCodeOf (action analysis),
      req_actionTaken = storedAction (action analysis),
      req_headersJson = headersToStore tenant incomingRequest,
      req_bodyPreview = preview,
      req_queryString = queryString (query incomingRequest),
      req_wafHitsJson = matches analysis\<rparr>"

text \<open>The argument of \<^verbatim>\<open>storage.createAnalysis\<close>.\<close>

definition analysisRecord :: "string \<Rightarrow> Request \<Rightarrow> AnalysisResult \<Rightarrow> Analysis" where
  "analysisRecord analysisId storedRequest analysis =
     \<lparr>analysis_id = analysisId,
      analysis_requestId = req_id storedRequest,
      analysis_matchedRulesJson = matches analysis,
      analysis_totalScore = score analysis,
      analysis_suggestedAction = storedAction (action analysis),
      analysis_finalAction = storedAction (action analysis),
      analysis_processingTimeMs = None,
      analysis_matchCount = length (matches analysis)\<rparr>"

text \<open>The argument of \<^verbatim>\<open>storage.createAlert\<close>.\<close>

definition alertRecord :: "string \<Rightarrow> string \<Rightarrow> AnalysisResult \<Rightarrow> Alert" where
  "alertRecord alertId tenantId analysis =
     \<lparr>alert_id = alertId,
      alert_tenantId = tenantId,
      alert_severity = None,
      alert_type = ''unknown'',
      alert_title = ''High-risk request detected (Score: '' @ showInt (score analysis) @ '')'',
      alert_message =
        ''Detected '' @ showNat (length (matches analysis)) @ '' rule matches: ''
        @ join '', '' (map (\<lambda>m. []) (take 3 (matches analysis)))
        @ (if length (matches analysis) > 3 then ''...'' else []),
      alert_isDismissed = False\<rparr>"

text \<open>The statements from \<^verbatim>\<open>// Store the request\<close> to the answer.\<close>

definition storeAndAnswer ::
  "int \<Rightarrow> string \<times> string \<times> string \<Rightarrow> Tenant \<Rightarrow> string \<Rightarrow> RequestData \<Rightarrow> AnalysisResult
     \<Rightarrow> string option \<Rightarrow> Server \<Rightarrow> HttpResponse \<times> Server" where
  "storeAndAnswer now ids tenant tenantId incomingRequest analysis preview srv1 =
     (let (requestId, analysisId, alertId) = ids;
          storedRequest =
            requestRecord now requestId tenant tenantId incomingRequest analysis preview;
          srv2 = srv1\<lparr>db := createRequest storedRequest (db srv1)\<rparr>;
          srv3 = srv2\<lparr>db := createAnalysis (analysisRecord analysisId storedRequest analysis)
                                (db srv2)\<rparr>;
          srv4 = broadcastRequest storedRequest srv3;
          srv5 =
            (if score analysis \<ge> 70
             then let alert = alertRecord alertId tenantId analysis
                  in broadcastAlert alert (srv4\<lparr>db := createAlert alert (db srv4)\<rparr>)
             else srv4)
      in (Json 200
            (JObj [(''requestId'', JStr (req_id storedRequest)),
                   (''action'', JStr (actionName (action analysis))),
                   (''score'', JNum (score analysis)),
                   (''matchCount'', JNum (int (length (matches analysis))))]),
          srv5))"

text \<open>The statements from the tenant's thresholds to the analysis and the body preview.\<close>

definition analyseAndStore ::
  "js_runtime \<Rightarrow> int \<Rightarrow> string \<times> string \<times> string \<Rightarrow> Tenant \<Rightarrow> string \<Rightarrow> RequestData
     \<Rightarrow> Server \<Rightarrow> HttpResponse \<times> Server" where
  "analyseAndStore rt now ids tenant tenantId incomingRequest srv =
     (let policy = getPolicyByTenant (db srv) tenantId;
          thresholds = policyThresholds policy;
          customRules = getRulesByTenant (db srv) (Some tenantId);
          globalRules = getRulesByTenant (db srv) None;
          srv1 = srv\<lparr>wafEngine :=
                   setCustomRules (map WafRule.truncate (globalRules @ customRules))\<rparr>
      in case analyzeRequest rt (wafEngine srv1) incomingRequest thresholds of
           Inl e \<Rightarrow> (errorResponse 500 ''WAF processing error'', srv1)
         | Inr analysis \<Rightarrow>
             (case bodyPreview (body incomingRequest) of
                Inl e \<Rightarrow> (errorResponse 500 ''WAF processing error'', srv1)
              | Inr preview \<Rightarrow>
                  storeAndAnswer now ids tenant tenantId incomingRequest analysis preview srv1))"

definition ingress ::
  "js_runtime \<Rightarrow> int \<Rightarrow> string \<times> string \<times> string \<Rightarrow> IngressBody \<Rightarrow> Server
     \<Rightarrow> HttpResponse \<times> Server" where
  "ingress rt now ids reqBody srv =
     (case (body_tenantId reqBody, body_request reqBody) of
        (Some tenantId, Some incomingRequest) \<Rightarrow>
          if tenantId = [] then (errorResponse 400 ''tenantId and request are required'', srv)
          else
          (case getTenant (db srv) tenantId of
             None \<Rightarrow> (errorResponse 404 ''Tenant not found or inactive'', srv)
           | Some tenant \<Rightarrow>
               if \<not> tenant_isActive tenant
               then (errorResponse 404 ''Tenant not found or inactive'', srv)
               else analyseAndStore rt now ids tenant tenantId incomingRequest srv)
      | _ \<Rightarrow> (errorResponse 400 ''tenantId and request are required'', srv))"

section \<open>A concrete runtime\<close>

text \<open>
  A model of the three built-ins on ASCII text, to run the engine on concrete requests.

  The regular expressions cover this part of the ECMAScript pattern syntax: alternation,
  sequences, groups (capturing and \<^verbatim>\<open>(?:\<close>), the quantifiers \<^verbatim>\<open>*\<close>, \<^verbatim>\<open>+\<close>,
  \<^verbatim>\<open>?\<close> and their lazy forms, the dot, character classes with ranges and negation, the
  class escapes \<^verbatim>\<open>\d \D \w \W \s \S\<close>, the assertions \<^verbatim>\<open>^ $ \b \B\<close>, control
  escapes and escaped punctuation. Compiling gives \<open>Ok\<close> with the syntax tree,
  \<open>Malformed\<close> where the constructor throws a SyntaxError (an unterminated group or
  class, an unmatched closing parenthesis, a quantifier with nothing to repeat, a range out
  of order, a backslash at the end), and \<open>Beyond\<close> for a pattern that uses anything else
  (counted repetition, look-around, back-references, named groups, other escapes).
\<close>

datatype 'a res = Ok 'a | Malformed | Beyond

text \<open>An item of a character class: one character, a range, or a class escape.\<close>

datatype citem = Single char | Span char char | Esc char

datatype rx =
    Empty
  | Chr char
  | Dot
  | Class bool "citem list"
  | Bol
  | Eol
  | WordB bool
  | Seq rx rx
  | Alt rx rx
  | Star rx
  | Plus rx
  | Opt rx

text \<open>Characters: ASCII letters fold their case under the \<^verbatim>\<open>i\<close> flag.\<close>

definition charCode :: "char \<Rightarrow> nat" where
  "charCode c = of_char c"

definition isUpper :: "char \<Rightarrow> bool" where
  "isUpper c = (65 \<le> charCode c \<and> charCode c \<le> 90)"

definition isLower :: "char \<Rightarrow> bool" where
  "isLower c = (97 \<le> charCode c \<and> charCode c \<le> 122)"

definition isDigit :: "char \<Rightarrow> bool" where
  "isDigit c = (48 \<le> charCode c \<and> charCode c \<le> 57)"

definition toUpper :: "char \<Rightarrow> char" where
  "toUpper c = (if isLower c then char_of (charCode c - 32) else c)"

definition toLower :: "char \<Rightarrow> char" where
  "toLower c = (if isUpper c then char_of (charCode c + 32) else c)"

definition isWordChar :: "char \<Rightarrow> bool" where
  "isWordChar c = (isUpper c \<or> isLower c \<or> isDigit c \<or> c = CHR ''_'')"

definition isSpace :: "char \<Rightarrow> bool" where
  "isSpace c = (charCode c \<in> set [32, 9, 10, 11, 12, 13])"

definition isLineTerminator :: "char \<Rightarrow> bool" where
  "isLineTerminator c = (charCode c \<in> set [10, 13])"

definition escClass :: "char \<Rightarrow> char \<Rightarrow> bool" where
  "escClass e c =
     (if e = CHR ''d'' then isDigit c
      else if e = CHR ''D'' then \<not> isDigit c
      else if e = CHR ''w'' then isWordChar c
      else if e = CHR ''W'' then \<not> isWordChar c
      else if e = CHR ''s'' then isSpace c
      else \<not> isSpace c)"

fun inItem :: "char \<Rightarrow> citem \<Rightarrow> bool" where
  "inItem c (Single d) = (c = d)"
| "inItem c (Span lo hi) = (charCode lo \<le> charCode c \<and> charCode c \<le> charCode hi)"
| "inItem c (Esc e) = escClass e c"

definition inClass :: "citem list \<Rightarrow> char \<Rightarrow> bool" where
  "inClass items c =
     list_ex (\<lambda>it. inItem c it \<or> inItem (toUpper c) it \<or> inItem (toLower c) it) items"

text \<open>
  Matching computes, for a start position, the positions where a match of the expression
  can end; \<^verbatim>\<open>test\<close> asks whether some start position has one. For expressions without
  back-references this is independent of greedy or lazy choice. \<open>reach\<close> closes a set of
  positions under one more iteration of a starred expression.
\<close>

fun reach :: "(nat \<Rightarrow> nat list) \<Rightarrow> nat \<Rightarrow> nat list \<Rightarrow> nat list \<Rightarrow> nat list" where
  "reach step 0 frontier acc = acc"
| "reach step (Suc n) frontier acc =
     (let new = filter (\<lambda>j. j \<notin> set acc) (remdups (concat (map step frontier)))
      in if new = [] then acc else reach step n new (acc @ new))"

definition atWordBoundary :: "string \<Rightarrow> nat \<Rightarrow> bool" where
  "atWordBoundary s i =
     ((0 < i \<and> isWordChar (s ! (i - 1))) \<noteq> (i < length s \<and> isWordChar (s ! i)))"

fun ends :: "string \<Rightarrow> rx \<Rightarrow> nat \<Rightarrow> nat list" where
  "ends s Empty i = [i]"
| "ends s (Chr c) i = (if i < length s \<and> toUpper (s ! i) = toUpper c then [Suc i] else [])"
| "ends s Dot i = (if i < length s \<and> \<not> isLineTerminator (s ! i) then [Suc i] else [])"
| "ends s (Class neg items) i =
     (if i < length s \<and> (inClass items (s ! i) \<noteq> neg) then [Suc i] else [])"
| "ends s Bol i = (if i = 0 then [i] else [])"
| "ends s Eol i = (if i = length s then [i] else [])"
| "ends s (WordB pos) i = (if atWordBoundary s i = pos then [i] else [])"
| "ends s (Seq a b) i = remdups (concat (map (\<lambda>j. ends s b j) (ends s a i)))"
| "ends s (Alt a b) i = remdups (ends s a i @ ends s b i)"
| "ends s (Star a) i = reach (\<lambda>j. ends s a j) (Suc (length s)) [i] [i]"
| "ends s (Plus a) i =
     remdups (concat (map (\<lambda>k. reach (\<lambda>j. ends s a j) (Suc (length s)) [k] [k]) (ends s a i)))"
| "ends s (Opt a) i = remdups (i # ends s a i)"

definition rxTest :: "rx \<Rightarrow> string \<Rightarrow> bool" where
  "rxTest r s = list_ex (\<lambda>i. ends s r i \<noteq> []) [0..<Suc (length s)]"


text \<open>Sequencing of the steps of compilation.\<close>

fun andThen :: "'a res \<Rightarrow> ('a \<Rightarrow> 'b res) \<Rightarrow> 'b res" where
  "andThen (Ok x) f = f x"
| "andThen Malformed f = Malformed"
| "andThen Beyond f = Beyond"

definition consOk :: "'a \<Rightarrow> 'a list res \<Rightarrow> 'a list res" where
  "consOk x r = andThen r (\<lambda>xs. Ok (x # xs))"

definition isSyntaxChar :: "char \<Rightarrow> bool" where
  "isSyntaxChar c = (c \<in> set (''^$.*+?()[]{}|/'' @ bs))"

definition controlEscape :: "char \<Rightarrow> char option" where
  "controlEscape e =
     (if e = CHR ''t'' then Some (char_of (9::nat))
      else if e = CHR ''n'' then Some (char_of (10::nat))
      else if e = CHR ''v'' then Some (char_of (11::nat))
      else if e = CHR ''f'' then Some (char_of (12::nat))
      else if e = CHR ''r'' then Some (char_of (13::nat))
      else None)"

datatype tok = TChar char | TAtom rx | TAssert rx | TOpen | TClose | TBar | TQuant char

definition atomEscape :: "char \<Rightarrow> tok res" where
  "atomEscape e =
     (if e \<in> set ''dDwWsS'' then Ok (TAtom (Class False [Esc e]))
      else if e = CHR ''b'' then Ok (TAssert (WordB True))
      else if e = CHR ''B'' then Ok (TAssert (WordB False))
      else case controlEscape e of
             Some c \<Rightarrow> Ok (TChar c)
           | None \<Rightarrow> if isWordChar e then Beyond else Ok (TChar e))"

definition classEscape :: "char \<Rightarrow> citem res" where
  "classEscape e =
     (if e \<in> set ''dDwWsS'' then Ok (Esc e)
      else if e = CHR ''b'' then Ok (Single (char_of (8::nat)))
      else case controlEscape e of
             Some c \<Rightarrow> Ok (Single c)
           | None \<Rightarrow> if isWordChar e then Beyond else Ok (Single e))"

text \<open>The number of characters of a class body up to and including the closing bracket.\<close>

fun classLen :: "string \<Rightarrow> nat option" where
  "classLen [] = None"
| "classLen (c # cs) =
     (if c = CHR '']'' then Some 1
      else if [c] = bs then (case cs of [] \<Rightarrow> None | e # rest \<Rightarrow> map_option (\<lambda>n. n + 2) (classLen rest))
      else map_option Suc (classLen cs))"

datatype ctok = CAtom citem | CDash

fun classToks :: "string \<Rightarrow> ctok list res" where
  "classToks [] = Ok []"
| "classToks (c # cs) =
     (if [c] = bs
      then (case cs of
              [] \<Rightarrow> Malformed
            | e # rest \<Rightarrow> andThen (classEscape e) (\<lambda>a. consOk (CAtom a) (classToks rest)))
      else consOk (if c = CHR ''-'' then CDash else CAtom (Single c)) (classToks cs))"

definition citemOf :: "ctok \<Rightarrow> citem" where
  "citemOf t = (case t of CAtom a \<Rightarrow> a | CDash \<Rightarrow> Single CHR ''-'')"

fun ranges :: "ctok list \<Rightarrow> citem list res" where
  "ranges (t1 # CDash # t3 # ts) =
     (case (citemOf t1, citemOf t3) of
        (Single lo, Single hi) \<Rightarrow>
          if charCode lo > charCode hi then Malformed else consOk (Span lo hi) (ranges ts)
      | _ \<Rightarrow> Beyond)"
| "ranges (t # ts) = consOk (citemOf t) (ranges ts)"
| "ranges [] = Ok []"

text \<open>The pattern as a list of tokens.\<close>

function lex :: "string \<Rightarrow> tok list res" where
  "lex [] = Ok []"
| "lex (c # cs) =
     (if [c] = bs
      then (case cs of
              [] \<Rightarrow> Malformed
            | e # rest \<Rightarrow> andThen (atomEscape e) (\<lambda>t. consOk t (lex rest)))
      else if c = CHR ''[''
      then (case classLen (if take 1 cs = ''^'' then drop 1 cs else cs) of
              None \<Rightarrow> Malformed
            | Some k \<Rightarrow>
                andThen (classToks (take (k - 1) (if take 1 cs = ''^'' then drop 1 cs else cs)))
                  (\<lambda>cts. andThen (ranges cts)
                     (\<lambda>items. consOk (TAtom (Class (take 1 cs = ''^'') items))
                                 (lex (drop k (if take 1 cs = ''^'' then drop 1 cs else cs))))))
      else if c = CHR ''(''
      then (if take 1 cs = ''?''
            then (if take 2 cs = ''?:'' then consOk TOpen (lex (drop 2 cs)) else Beyond)
            else consOk TOpen (lex cs))
      else if c = CHR '')'' then consOk TClose (lex cs)
      else if c = CHR ''|'' then consOk TBar (lex cs)
      else if c \<in> set ''*+?'' then consOk (TQuant c) (lex cs)
      else if c = CHR ''.'' then consOk (TAtom Dot) (lex cs)
      else if c = CHR ''^'' then consOk (TAssert Bol) (lex cs)
      else if c = CHR ''$'' then consOk (TAssert Eol) (lex cs)
      else if c = CHR ''{'' then Beyond
      else consOk (TChar c) (lex cs))"
  by pat_completeness auto
termination
  by (relation "measure length") auto

text \<open>
  The tokens are read left to right with the alternatives and the sequence of the group
  being read (both in reverse) and a stack of the enclosing groups. A quantifier needs an
  atom just before it; after a quantifier only the lazy mark \<^verbatim>\<open>?\<close> may follow.
\<close>

datatype qstate = NoAtom | Atom | Quantified

definition quantified :: "char \<Rightarrow> rx \<Rightarrow> rx" where
  "quantified q a = (if q = CHR ''*'' then Star a else if q = CHR ''+'' then Plus a else Opt a)"

definition seqOf :: "rx list \<Rightarrow> rx" where
  "seqOf revItems = foldl (\<lambda>acc a. Seq a acc) Empty revItems"

definition altOf :: "rx list \<Rightarrow> rx list \<Rightarrow> rx" where
  "altOf revAlts revItems = foldl (\<lambda>acc a. Alt a acc) (seqOf revItems) revAlts"

fun parseToks ::
  "tok list \<Rightarrow> rx list \<Rightarrow> rx list \<Rightarrow> qstate \<Rightarrow> (rx list \<times> rx list) list \<Rightarrow> rx res" where
  "parseToks [] alts items q stack = (if stack = [] then Ok (altOf alts items) else Malformed)"
| "parseToks (TChar c # ts) alts items q stack = parseToks ts alts (Chr c # items) Atom stack"
| "parseToks (TAtom a # ts) alts items q stack = parseToks ts alts (a # items) Atom stack"
| "parseToks (TAssert a # ts) alts items q stack = parseToks ts alts (a # items) NoAtom stack"
| "parseToks (TOpen # ts) alts items q stack = parseToks ts [] [] NoAtom ((alts, items) # stack)"
| "parseToks (TClose # ts) alts items q [] = Malformed"
| "parseToks (TClose # ts) alts items q ((palts, pitems) # stack) =
     parseToks ts palts (altOf alts items # pitems) Atom stack"
| "parseToks (TBar # ts) alts items q stack = parseToks ts (seqOf items # alts) [] NoAtom stack"
| "parseToks (TQuant c # ts) alts items q stack =
     (case q of
        Atom \<Rightarrow>
          (case items of
             a # rest \<Rightarrow> parseToks ts alts (quantified c a # rest) Quantified stack
           | [] \<Rightarrow> Malformed)
      | Quantified \<Rightarrow> if c = CHR ''?'' then parseToks ts alts items NoAtom stack else Malformed
      | NoAtom \<Rightarrow> Malformed)"

definition compile :: "string \<Rightarrow> rx res" where
  "compile p = andThen (lex p) (\<lambda>ts. parseToks ts [] [] NoAtom [])"

text \<open>\<^verbatim>\<open>new RegExp(p, 'i')\<close>. For a pattern beyond the fragment the model has no syntax
  tree and answers \<open>None\<close> as well; the runs below use patterns of the fragment only.\<close>

definition RegExp_i :: "string \<Rightarrow> (string \<Rightarrow> bool) option" where
  "RegExp_i p = (case compile p of Ok r \<Rightarrow> Some (rxTest r) | _ \<Rightarrow> None)"


text \<open>\<^verbatim>\<open>JSON.stringify\<close> without indentation.\<close>

definition hexDigit :: "nat \<Rightarrow> char" where
  "hexDigit d = (if d < 10 then char_of (48 + d) else char_of (87 + d))"

definition escapeChar :: "char \<Rightarrow> string" where
  "escapeChar c =
     (if c = CHR 0x22 then bs @ [CHR 0x22]
      else if [c] = bs then bs @ bs
      else if charCode c = 8 then bs @ ''b''
      else if charCode c = 12 then bs @ ''f''
      else if charCode c = 10 then bs @ ''n''
      else if charCode c = 13 then bs @ ''r''
      else if charCode c = 9 then bs @ ''t''
      else if charCode c < 32
      then bs @ ''u00'' @ [hexDigit (charCode c div 16), hexDigit (charCode c mod 16)]
      else [c])"

definition quote :: "string \<Rightarrow> string" where
  "quote s = [CHR 0x22] @ concat (map escapeChar s) @ [CHR 0x22]"

fun stringify :: "json \<Rightarrow> string" where
  "stringify JNull = ''null''"
| "stringify (JBool b) = (if b then ''true'' else ''false'')"
| "stringify (JNum n) = showInt n"
| "stringify (JStr s) = quote s"
| "stringify (JArr xs) = ''['' @ join '','' (map stringify xs) @ '']''"
| "stringify (JObj kvs) =
     ''{'' @ join '','' (map (\<lambda>(k, v). quote k @ '':'' @ stringify v) kvs) @ ''}''"

text \<open>
  The properties that an object literal inherits from \<^verbatim>\<open>Object.prototype\<close>, each
  with the text its value converts to.
\<close>

definition nativeFunction :: "string \<Rightarrow> string" where
  "nativeFunction name = ''function '' @ name @ ''() { [native code] }''"

definition objectPrototype :: "string \<Rightarrow> string option" where
  "objectPrototype k =
     (if k = ''constructor'' then Some (nativeFunction ''Object'')
      else if k = ''__proto__'' then Some ''[object Object]''
      else if k \<in> set [''toString'', ''toLocaleString'', ''valueOf'', ''hasOwnProperty'',
                        ''isPrototypeOf'', ''propertyIsEnumerable'', ''__defineGetter__'',
                        ''__defineSetter__'', ''__lookupGetter__'', ''__lookupSetter__'']
      then Some (nativeFunction k)
      else None)"

definition node :: js_runtime where
  "node = \<lparr>RegExp = RegExp_i, JSON_stringify = stringify, inherited = objectPrototype\<rparr>"

section \<open>Notions used in the statements\<close>

text \<open>
  A rule fires on a request when it is enabled, its pattern compiles and the compiled
  pattern matches the content of its target field. \<open>matchOf\<close> is the match record that
  the loop pushes for a rule that fired.
\<close>

definition fires :: "js_runtime \<Rightarrow> SearchableContent \<Rightarrow> WafRule \<Rightarrow> bool" where
  "fires rt sc rule =
     (enabled rule \<and>
      (case RegExp rt (pattern rule) of
         None \<Rightarrow> False
       | Some test \<Rightarrow>
           (case targetContent rt sc (targetField rule) of
              Text s \<Rightarrow> test s
            | NotAString t \<Rightarrow> test t)))"

definition matchOf :: "js_runtime \<Rightarrow> SearchableContent \<Rightarrow> WafRule \<Rightarrow> Match" where
  "matchOf rt sc rule =
     \<lparr>ruleId = id' rule, field' = targetField rule,
      value' = substring0 (case targetContent rt sc (targetField rule) of
                             Text s \<Rightarrow> s | NotAString t \<Rightarrow> t) 100,
      severity' = severity rule\<rparr>"

text \<open>The order of the actions: allow, then challenge, then block.\<close>

definition restrictiveness :: "Action \<Rightarrow> nat" where
  "restrictiveness a = (case a of Allow \<Rightarrow> 0 | Challenge \<Rightarrow> 1 | Block \<Rightarrow> 2)"

text \<open>The key and the clock of a call of the rate limiter, and its refusal.\<close>

definition callKey :: "string \<times> string \<times> int \<times> real \<Rightarrow> string" where
  "callKey call = (case call of (ip, route, now, random) \<Rightarrow> ip @ ''-'' @ route)"

definition callTime :: "string \<times> string \<times> int \<times> real \<Rightarrow> int" where
  "callTime call = (case call of (ip, route, now, random) \<Rightarrow> now)"

definition tooManyRequests :: Outcome where
  "tooManyRequests =
     Respond (Json 429 (JObj [(''message'', JStr ''Too many requests, please try again later'')]))"

section \<open>Example data\<close>

definition defaultThresholds :: Thresholds where
  "defaultThresholds = \<lparr>blockThreshold = 70, challengeThreshold = 50, monitorThreshold = 30\<rparr>"

definition homeRequest :: RequestData where
  "homeRequest = [Method ''GET'', Path ''/home'', Headers (JObj []),
                  ClientIp ''203.0.113.7'']"

definition traversalRequest :: RequestData where
  "traversalRequest = [Method ''GET'', Path ''/../../etc/passwd'', Headers (JObj []),
                       ClientIp ''203.0.113.7'']"

definition customRule :: "string \<Rightarrow> string \<Rightarrow> string \<Rightarrow> string \<Rightarrow> bool \<Rightarrow> WafRule" where
  "customRule name pat target sev on =
     \<lparr>id' = name, pattern = pat, targetField = target, severity = sev,
      category = ''custom'', enabled = on\<rparr>"

definition shortRequest :: RequestData where
  "shortRequest = [Method ''GET'', Path ''/a'', Headers (JObj [])]"

definition fiveCritical :: "WafRule list" where
  "fiveCritical =
     map (\<lambda>i. customRule (''critical-'' @ showNat i) ''a'' ''path'' ''critical'' True)
         [1..<6]"

definition fiveMatches :: "Match list" where
  "fiveMatches =
     map (\<lambda>i. \<lparr>ruleId = ''critical-'' @ showNat i, field' = ''path'', value' = ''/a'',
                 severity' = ''critical''\<rparr>)
         [1..<6]"

definition watchfulThresholds :: Thresholds where
  "watchfulThresholds = \<lparr>blockThreshold = 90, challengeThreshold = 60, monitorThreshold = 30\<rparr>"

text \<open>
  Five calls after a first one at time 1000: four from the same caller to the login route
  and one from another caller; two of them draw a number that runs the cleanup.
\<close>

definition loginCalls :: "(string \<times> string \<times> int \<times> real) list" where
  "loginCalls =
     [(''198.51.100.4'', ''/api/login'', 2000, 0.5),
      (''203.0.113.9'', ''/api/login'', 2500, 0.001),
      (''198.51.100.4'', ''/api/login'', 3000, 0.5),
      (''198.51.100.4'', ''/api/login'', 4000, 0.005),
      (''198.51.100.4'', ''/api/login'', 5000, 0.5)]"

definition expiredStore :: RateLimitStore where
  "expiredStore = [''198.51.100.4-/api/login'' \<mapsto> \<lparr>count = 5, resetTime = 61000\<rparr>]"

text \<open>A server with an active and an inactive tenant, and a request that the built-in
  SQL rule blocks, with the records its ingestion leaves behind.\<close>

definition acme :: Tenant where
  "acme = \<lparr>tenant_id = ''acme'', tenant_isActive = True, tenant_retentionDays = 30,
            tenant_anonymizeIpAfterDays = 7, tenant_scrubCookies = Some True,
            tenant_scrubAuthHeaders = Some True\<rparr>"

definition dormant :: Tenant where
  "dormant = acme\<lparr>tenant_id := ''dormant'', tenant_isActive := False\<rparr>"

definition exampleServer :: Server where
  "exampleServer =
     \<lparr>db = \<lparr>tenants = [acme, dormant], policies = [], wafRules = [], requests = [],
             analyses = [], alerts = []\<rparr>,
      wafEngine = [], sseLog = []\<rparr>"

definition unionRequest :: RequestData where
  "unionRequest =
     [Method ''GET'', Path ''/search'',
      Headers (JObj [(''user-agent'', JStr ''curl/8.4''), (''cookie'', JStr ''sid=1'')]),
      Query (JObj [(''id'', JStr ''1 UNION SELECT password FROM users'')]),
      ClientIp ''203.0.113.7'']"

definition unionMatch :: Match where
  "unionMatch =
     \<lparr>ruleId = ''sql-injection'', field' = ''query'',
      value' = ''{'' @ [CHR 0x22] @ ''id'' @ [CHR 0x22] @ '':'' @ [CHR 0x22]
               @ ''1 UNION SELECT password FROM users'' @ [CHR 0x22] @ ''}'',
      severity' = ''high''\<rparr>"

definition unionStored :: Request where
  "unionStored =
     \<lparr>req_id = ''req-1'', req_tenantId = ''acme'', req_timestamp = 1700000000000,
      req_method = Some ''GET'', req_path = Some ''/search'',
      req_clientIp = Some ''203.0.113.7'',
      req_userAgent = Some (JStr ''curl/8.4''), req_responseCode = 403,
      req_actionTaken = deny,
      req_headersJson = JObj [(''user-agent'', JStr ''curl/8.4'')],
      req_bodyPreview = None,
      req_queryString = Some ''id=1 UNION SELECT password FROM users'',
      req_wafHitsJson = [unionMatch]\<rparr>"

definition unionAnalysis :: Analysis where
  "unionAnalysis =
     \<lparr>analysis_id = ''an-1'', analysis_requestId = ''req-1'',
      analysis_matchedRulesJson = [unionMatch], analysis_totalScore = 75,
      analysis_suggestedAction = deny, analysis_finalAction = deny,
      analysis_processingTimeMs = None, analysis_matchCount = 1\<rparr>"

definition unionAlert :: Alert where
  "unionAlert =
     \<lparr>alert_id = ''al-1'', alert_tenantId = ''acme'', alert_severity = None,
      alert_type = ''unknown'', alert_title = ''High-risk request detected (Score: 75)'',
      alert_message = ''Detected 1 rule matches: '', alert_isDismissed = False\<rparr>"

definition unionServer :: Server where
  "unionServer =
     \<lparr>db = \<lparr>tenants = [acme, dormant], policies = [], wafRules = [],
             requests = [unionStored], analyses = [unionAnalysis], alerts = [unionAlert]\<rparr>,
      wafEngine = [],
      sseLog = [RequestEvent unionStored,
                AlertEvent ''al-1'' None ''High-risk request detected (Score: 75)'' ''acme'']\<rparr>"



text \<open>
  The request to \<^verbatim>\<open>/home\<close> received with its properties in another order, without
  the client address and with a property that no interface declares.
\<close>

definition reorderedRequest :: RequestData where
  "reorderedRequest = [Path ''/home'', Method ''GET'', Headers (JObj []),
                       Further ''trace'' (JStr ''t-1'')]"

definition reorderedSerialized :: string where
  "reorderedSerialized =
     ''{'' @ [CHR 0x22] @ ''path'' @ [CHR 0x22] @ '':'' @ [CHR 0x22] @ ''/home'' @ [CHR 0x22]
     @ '','' @ [CHR 0x22] @ ''method'' @ [CHR 0x22] @ '':'' @ [CHR 0x22] @ ''GET'' @ [CHR 0x22]
     @ '','' @ [CHR 0x22] @ ''headers'' @ [CHR 0x22] @ '':{},''
     @ [CHR 0x22] @ ''trace'' @ [CHR 0x22] @ '':'' @ [CHR 0x22] @ ''t-1'' @ [CHR 0x22] @ ''}''"

text \<open>The text of \<^verbatim>\<open>JSON.stringify\<close> for the request to \<^verbatim>\<open>/home\<close>.\<close>

definition homeSerialized :: string where
  "homeSerialized =
     ''{'' @ [CHR 0x22] @ ''method'' @ [CHR 0x22] @ '':'' @ [CHR 0x22] @ ''GET'' @ [CHR 0x22]
     @ '','' @ [CHR 0x22] @ ''path'' @ [CHR 0x22] @ '':'' @ [CHR 0x22] @ ''/home'' @ [CHR 0x22]
     @ '','' @ [CHR 0x22] @ ''headers'' @ [CHR 0x22] @ '':{},''
     @ [CHR 0x22] @ ''clientIp'' @ [CHR 0x22] @ '':'' @ [CHR 0x22] @ ''203.0.113.7''
     @ [CHR 0x22] @ ''}''"

section \<open>The scan of the rules\<close>

lemma scanRules_result:
  "scanRules rt sc rules ms totalScore = Inr (ms', totalScore') \<Longrightarrow>
     ms' = ms @ map (matchOf rt sc) (filter (fires rt sc) rules) \<and>
     totalScore' = totalScore
        + sum_list (map (\<lambda>r. severityScore (severity r)) (filter (fires rt sc) rules))"
proof (induction rules arbitrary: ms totalScore)
  case Nil
  then show ?case by simp
next
  case (Cons rule rest)
  show ?case
  proof (cases "enabled rule")
    case False
    with Cons show ?thesis by (simp add: fires_def)
  next
    case True
    from Cons.prems True obtain test where t: "RegExp rt (pattern rule) = Some test"
      by (cases "RegExp rt (pattern rule)") auto
    show ?thesis
    proof (cases "targetContent rt sc (targetField rule)")
      case (Text s)
      show ?thesis
      proof (cases "test s")
        case hit: True
        with Cons.prems True t Text
        have "scanRules rt sc rest (ms @ [matchOf rt sc rule])
                (totalScore + severityScore (severity rule)) = Inr (ms', totalScore')"
          by (simp add: matchOf_def)
        from Cons.IH[OF this] hit True t Text show ?thesis
          by (simp add: fires_def)
      next
        case miss: False
        with Cons.prems True t Text
        have "scanRules rt sc rest ms totalScore = Inr (ms', totalScore')" by simp
        from Cons.IH[OF this] miss True t Text show ?thesis
          by (simp add: fires_def)
      qed
    next
      case (NotAString u)
      with Cons.prems True t have miss: "\<not> test u"
        and "scanRules rt sc rest ms totalScore = Inr (ms', totalScore')"
        by (auto split: if_splits)
      from Cons.IH[OF this(2)] miss True t NotAString show ?thesis
        by (simp add: fires_def)
    qed
  qed
qed

lemma scanRules_skips_disabled:
  "\<not> enabled r \<Longrightarrow>
     scanRules rt sc (xs @ r # ys) ms totalScore = scanRules rt sc (xs @ ys) ms totalScore"
  by (induction xs arbitrary: ms totalScore)
     (simp_all split: option.splits Content.splits)


lemma targetContent_Text:
  "inherited rt key = None \<Longrightarrow> \<exists>s. targetContent rt sc key = Text s"
  by (simp add: targetContent_def)

lemma scanRules_completes:
  "\<forall>r \<in> set rules. enabled r \<longrightarrow> RegExp rt (pattern r) \<noteq> None
                                  \<and> inherited rt (targetField r) = None \<Longrightarrow>
     \<exists>res. scanRules rt sc rules ms totalScore = Inr res"
proof (induction rules arbitrary: ms totalScore)
  case Nil
  then show ?case by simp
next
  case (Cons rule rest)
  from Cons.prems have rest: "\<forall>r \<in> set rest. enabled r \<longrightarrow> RegExp rt (pattern r) \<noteq> None
                                  \<and> inherited rt (targetField r) = None" by simp
  show ?case
  proof (cases "enabled rule")
    case False
    with Cons.IH[OF rest] show ?thesis by simp
  next
    case True
    with Cons.prems obtain test where t: "RegExp rt (pattern rule) = Some test"
      and "inherited rt (targetField rule) = None" by auto
    from targetContent_Text[OF this(2)] obtain s where
      s: "targetContent rt sc (targetField rule) = Text s" by blast
    from True t s Cons.IH[OF rest] show ?thesis by simp
  qed
qed

lemma sum_severity_nonneg:
  "0 \<le> sum_list (map (\<lambda>r. severityScore (severity r)) rs)"
  by (induction rs) (simp_all add: severityScore_def)

lemma analyzeRequest_Inr:
  "analyzeRequest rt eng req th = Inr res \<Longrightarrow>
     \<exists>ms t. scanRules rt (searchableContent rt req) (allRules eng) [] 0 = Inr (ms, t)
       \<and> res = \<lparr>action = fst (decide (min 100 t) th), score = min 100 t, matches = ms,
                 reason = snd (decide (min 100 t) th)\<rparr>"
  by (auto simp: analyzeRequest_def Let_def split: sum.splits prod.splits)

lemma analyzeRequest_decide:
  assumes "analyzeRequest rt eng req th = Inr res"
  shows "(action res, reason res) = decide (score res) th"
proof -
  from analyzeRequest_Inr[OF assms] show ?thesis by auto
qed

lemma decide_mono:
  "s1 \<le> s2 \<Longrightarrow> restrictiveness (fst (decide s1 th)) \<le> restrictiveness (fst (decide s2 th))"
  by (auto simp: decide_def restrictiveness_def)

lemma traversal_run:
  "analyzeRequest node [] traversalRequest defaultThresholds =
     Inr \<lparr>action = Challenge, score = 50,
          matches = [\<lparr>ruleId = ''path-traversal'', field' = ''path'',
                      value' = ''/../../etc/passwd'', severity' = ''medium''\<rparr>],
          reason = ExceededChallenge 50 50\<rparr>"
  by code_simp

lemma home_run:
  "analyzeRequest node [] homeRequest defaultThresholds =
     Inr \<lparr>action = Allow, score = 0, matches = [], reason = Passed\<rparr>"
  by code_simp

section \<open>Scoring\<close>

text \<open>
  C1. Whenever \<open>analyzeRequest\<close> returns a result, its score is the sum, over the rules
  that fired, of the points of the rule's severity (critical 100, high 75, medium 50,
  anything else 25), cut off at 100, and lies between 0 and 100. It does return a result
  when the pattern of every enabled rule compiles and no target field names an inherited
  property. A rule of the engine has no score field: the declared score of a stored rule
  is dropped before the rule reaches the engine, and the scores 80, 70, 50, 75 declared by
  the built-in patterns are dropped when the rule list is built, so that the built-in
  rules count 75, 75, 50, 75.
\<close>

theorem analyzeRequest_score:
  "(analyzeRequest rt eng req th = Inr res \<longrightarrow>
      score res =
        min 100 (sum_list (map (\<lambda>r. severityScore (severity r))
                   (filter (fires rt (searchableContent rt req)) (allRules eng))))
      \<and> 0 \<le> score res \<and> score res \<le> 100)
   \<and> ((\<forall>x \<in> set (allRules eng). enabled x \<longrightarrow> RegExp rt (pattern x) \<noteq> None
                                        \<and> inherited rt (targetField x) = None)
      \<longrightarrow> (\<exists>r. analyzeRequest rt eng req th = Inr r))
   \<and> severityScore ''critical'' = 100 \<and> severityScore ''high'' = 75
   \<and> severityScore ''medium'' = 50 \<and> severityScore ''low'' = 25
   \<and> map (\<lambda>r. severityScore (severity r)) (allRules []) = [75, 75, 50, 75]
   \<and> map WafRule.truncate (map (rule_score_update f) stored) = map WafRule.truncate stored"
proof -
  have sum: "analyzeRequest rt eng req th = Inr res \<longrightarrow>
      score res =
        min 100 (sum_list (map (\<lambda>r. severityScore (severity r))
                   (filter (fires rt (searchableContent rt req)) (allRules eng))))
      \<and> 0 \<le> score res \<and> score res \<le> 100"
  proof
    assume run: "analyzeRequest rt eng req th = Inr res"
    from analyzeRequest_Inr[OF run] obtain ms t where
      s: "scanRules rt (searchableContent rt req) (allRules eng) [] 0 = Inr (ms, t)"
      and r: "score res = min 100 t" by auto
    from scanRules_result[OF s] have
      t: "t = sum_list (map (\<lambda>r. severityScore (severity r))
                        (filter (fires rt (searchableContent rt req)) (allRules eng)))"
      by simp
    have "0 \<le> score res" using r t sum_severity_nonneg by simp
    moreover have "score res \<le> 100" using r by simp
    ultimately show "score res =
        min 100 (sum_list (map (\<lambda>r. severityScore (severity r))
                   (filter (fires rt (searchableContent rt req)) (allRules eng))))
      \<and> 0 \<le> score res \<and> score res \<le> 100"
      using r t by simp
  qed
  have returns: "(\<forall>x \<in> set (allRules eng). enabled x \<longrightarrow> RegExp rt (pattern x) \<noteq> None
                                        \<and> inherited rt (targetField x) = None)
      \<longrightarrow> (\<exists>r. analyzeRequest rt eng req th = Inr r)"
  proof
    assume "\<forall>x \<in> set (allRules eng). enabled x \<longrightarrow> RegExp rt (pattern x) \<noteq> None
                                        \<and> inherited rt (targetField x) = None"
    from scanRules_completes[OF this]
    obtain out where
      "scanRules rt (searchableContent rt req) (allRules eng) [] 0 = Inr out" by blast
    then show "\<exists>r. analyzeRequest rt eng req th = Inr r"
      by (cases out) (simp add: analyzeRequest_def Let_def split: prod.splits)
  qed
  have builtin: "map (\<lambda>r. severityScore (severity r)) (allRules []) = [75, 75, 50, 75]"
    by (simp add: allRules_def defaultPatterns_def severityScore_def)
  have dropped: "map WafRule.truncate (map (rule_score_update f) stored)
                   = map WafRule.truncate stored"
    by (simp add: WafRule.truncate_def)
  have points: "severityScore ''critical'' = 100 \<and> severityScore ''high'' = 75
     \<and> severityScore ''medium'' = 50 \<and> severityScore ''low'' = 25"
    by (simp add: severityScore_def)
  from sum returns builtin dropped points show ?thesis by blast
qed

lemma five_critical_compile:
  "list_all (\<lambda>x. RegExp node (pattern x) \<noteq> None \<and> inherited node (targetField x) = None)
     (allRules fiveCritical)"
  by code_simp

theorem analyzeRequest_score_witness:
  "list_all (\<lambda>x. RegExp node (pattern x) \<noteq> None \<and> inherited node (targetField x) = None)
     (allRules fiveCritical)
   \<and> analyzeRequest node fiveCritical shortRequest defaultThresholds
     = Inr \<lparr>action = Block, score = 100, matches = fiveMatches,
            reason = ExceededBlock 100 70\<rparr>
   \<and> sum_list (map (\<lambda>r. severityScore (severity r))
        (filter (fires node (searchableContent node shortRequest))
           (allRules fiveCritical))) = 500
   \<and> (100::int) = min 100 500"
proof -
  have clean: "\<forall>x \<in> set (allRules fiveCritical). enabled x \<longrightarrow> RegExp node (pattern x) \<noteq> None
                                        \<and> inherited node (targetField x) = None"
    using five_critical_compile by (simp add: list_all_iff)
  have run: "analyzeRequest node fiveCritical shortRequest defaultThresholds
     = Inr \<lparr>action = Block, score = 100, matches = fiveMatches,
            reason = ExceededBlock 100 70\<rparr>"
    by code_simp
  have total: "sum_list (map (\<lambda>r. severityScore (severity r))
        (filter (fires node (searchableContent node shortRequest))
           (allRules fiveCritical))) = 500"
    by code_simp
  note inst = analyzeRequest_score[where rt=node and eng=fiveCritical and req=shortRequest
      and th=defaultThresholds
      and res="\<lparr>action = Block, score = 100, matches = fiveMatches,
                  reason = ExceededBlock 100 70\<rparr>"]
  from inst clean have "\<exists>r. analyzeRequest node fiveCritical shortRequest defaultThresholds
                             = Inr r" by blast
  moreover from inst run have "score \<lparr>action = Block, score = 100, matches = fiveMatches,
                  reason = ExceededBlock 100 70\<rparr>
      = min 100 (sum_list (map (\<lambda>r. severityScore (severity r))
        (filter (fires node (searchableContent node shortRequest))
           (allRules fiveCritical))))" by blast
  ultimately show ?thesis using five_critical_compile run total by simp
qed

section \<open>Decision\<close>

lemma watchful_run:
  "analyzeRequest node [] traversalRequest watchfulThresholds =
     Inr \<lparr>action = Allow, score = 50,
          matches = [\<lparr>ruleId = ''path-traversal'', field' = ''path'',
                      value' = ''/../../etc/passwd'', severity' = ''medium''\<rparr>],
          reason = RequiresMonitoring 50\<rparr>"
  by code_simp

text \<open>
  C2. The action and the reason of a result follow the score through the three thresholds
  in a fixed order: at or above the block threshold the action is block; otherwise at or
  above the challenge threshold it is challenge; otherwise at or above the monitor
  threshold it stays allow and the reason says that the score requires monitoring;
  otherwise it is allow and the reason is that the request passed all checks.
\<close>

theorem analyzeRequest_decision_priority:
  "analyzeRequest rt eng req th = Inr res \<Longrightarrow>
     (if blockThreshold th \<le> of_int (score res)
      then action res = Block
           \<and> reason res = ExceededBlock (score res) (blockThreshold th)
      else if challengeThreshold th \<le> of_int (score res)
      then action res = Challenge
           \<and> reason res = ExceededChallenge (score res) (challengeThreshold th)
      else if monitorThreshold th \<le> of_int (score res)
      then action res = Allow \<and> reason res = RequiresMonitoring (score res)
      else action res = Allow \<and> reason res = Passed)"
proof -
  assume "analyzeRequest rt eng req th = Inr res"
  then have "(action res, reason res) = decide (score res) th"
    by (rule analyzeRequest_decide)
  then show ?thesis
    by (simp add: decide_def split: if_splits)
qed

theorem analyzeRequest_decision_priority_witness:
  "analyzeRequest node [] traversalRequest watchfulThresholds =
     Inr \<lparr>action = Allow, score = 50,
          matches = [\<lparr>ruleId = ''path-traversal'', field' = ''path'',
                      value' = ''/../../etc/passwd'', severity' = ''medium''\<rparr>],
          reason = RequiresMonitoring 50\<rparr>
   \<and> \<not> blockThreshold watchfulThresholds \<le> 50
   \<and> \<not> challengeThreshold watchfulThresholds \<le> 50
   \<and> monitorThreshold watchfulThresholds \<le> 50"
  using analyzeRequest_decision_priority[OF watchful_run] watchful_run
  by (simp add: watchfulThresholds_def)

text \<open>
  C3. With thresholds ordered block \<open>\<ge>\<close> challenge \<open>\<ge>\<close> monitor, the action of a result is
  a function of its score and of the thresholds alone, and that function is monotone: of
  two results under the same thresholds, the one with the higher score has an action at
  least as restrictive (allow below challenge below block).
\<close>

theorem analyzeRequest_decision_monotone:
  "challengeThreshold th \<le> blockThreshold th \<Longrightarrow>
   monitorThreshold th \<le> challengeThreshold th \<Longrightarrow>
   analyzeRequest rt1 eng1 req1 th = Inr res1 \<Longrightarrow>
   analyzeRequest rt2 eng2 req2 th = Inr res2 \<Longrightarrow>
   score res1 \<le> score res2 \<Longrightarrow>
     action res1 = fst (decide (score res1) th)
     \<and> action res2 = fst (decide (score res2) th)
     \<and> restrictiveness (action res1) \<le> restrictiveness (action res2)"
proof -
  assume r1: "analyzeRequest rt1 eng1 req1 th = Inr res1"
    and r2: "analyzeRequest rt2 eng2 req2 th = Inr res2"
    and le: "score res1 \<le> score res2"
  have a1: "action res1 = fst (decide (score res1) th)"
    using analyzeRequest_decide[OF r1] by (metis fst_conv)
  have a2: "action res2 = fst (decide (score res2) th)"
    using analyzeRequest_decide[OF r2] by (metis fst_conv)
  from decide_mono[OF le] a1 a2 show ?thesis by simp
qed

theorem analyzeRequest_decision_monotone_witness:
  "challengeThreshold defaultThresholds \<le> blockThreshold defaultThresholds
   \<and> monitorThreshold defaultThresholds \<le> challengeThreshold defaultThresholds
   \<and> analyzeRequest node [] homeRequest defaultThresholds =
       Inr \<lparr>action = Allow, score = 0, matches = [], reason = Passed\<rparr>
   \<and> analyzeRequest node [] traversalRequest defaultThresholds =
       Inr \<lparr>action = Challenge, score = 50,
            matches = [\<lparr>ruleId = ''path-traversal'', field' = ''path'',
                        value' = ''/../../etc/passwd'', severity' = ''medium''\<rparr>],
            reason = ExceededChallenge 50 50\<rparr>
   \<and> restrictiveness Allow \<le> restrictiveness Challenge"
proof -
  have o1: "challengeThreshold defaultThresholds \<le> blockThreshold defaultThresholds"
    by (simp add: defaultThresholds_def)
  have o2: "monitorThreshold defaultThresholds \<le> challengeThreshold defaultThresholds"
    by (simp add: defaultThresholds_def)
  from analyzeRequest_decision_monotone[OF o1 o2 home_run traversal_run]
  show ?thesis using o1 o2 home_run traversal_run by simp
qed

section \<open>Disabled rules\<close>

lemma disabled_short_run:
  "analyzeRequest node [customRule ''off'' ''a'' ''path'' ''critical'' False]
     shortRequest defaultThresholds
   = Inr \<lparr>action = Allow, score = 0, matches = [], reason = Passed\<rparr>"
  by code_simp

lemma enabled_short_run:
  "analyzeRequest node [customRule ''off'' ''a'' ''path'' ''critical'' True]
     shortRequest defaultThresholds
   = Inr \<lparr>action = Block, score = 100,
          matches = [\<lparr>ruleId = ''off'', field' = ''path'', value' = ''/a'',
                      severity' = ''critical''\<rparr>],
          reason = ExceededBlock 100 70\<rparr>"
  by code_simp

text \<open>
  C4. A rule whose enabled flag is false takes no part in the analysis: \<open>setCustomRules\<close>
  drops it, and the loop of \<open>analyzeRequest\<close> skips it even when it sits in the rule list
  of the engine. With the rule or without it the analysis is the same for every request,
  matches and score included, whatever the pattern of the rule would match.
\<close>

theorem disabled_rule_ignored:
  "\<not> enabled r \<Longrightarrow>
     setCustomRules (xs @ r # ys) = setCustomRules (xs @ ys)
     \<and> analyzeRequest rt (xs @ r # ys) req th = analyzeRequest rt (xs @ ys) req th
     \<and> \<not> fires rt (searchableContent rt req) r"
proof -
  assume off: "\<not> enabled r"
  have "scanRules rt (searchableContent rt req) (allRules (xs @ r # ys)) [] 0
          = scanRules rt (searchableContent rt req) (allRules (xs @ ys)) [] 0"
    unfolding allRules_def append_assoc[symmetric]
    by (rule scanRules_skips_disabled[OF off])
  then show ?thesis using off
    by (simp add: analyzeRequest_def setCustomRules_def fires_def)
qed

theorem disabled_rule_ignored_witness:
  "\<not> enabled (customRule ''off'' ''a'' ''path'' ''critical'' False)
   \<and> analyzeRequest node [customRule ''off'' ''a'' ''path'' ''critical'' False]
       shortRequest defaultThresholds
     = analyzeRequest node [] shortRequest defaultThresholds
   \<and> analyzeRequest node [customRule ''off'' ''a'' ''path'' ''critical'' False]
       shortRequest defaultThresholds
     = Inr \<lparr>action = Allow, score = 0, matches = [], reason = Passed\<rparr>
   \<and> analyzeRequest node [customRule ''off'' ''a'' ''path'' ''critical'' True]
       shortRequest defaultThresholds
     = Inr \<lparr>action = Block, score = 100,
            matches = [\<lparr>ruleId = ''off'', field' = ''path'', value' = ''/a'',
                        severity' = ''critical''\<rparr>],
            reason = ExceededBlock 100 70\<rparr>
   \<and> setCustomRules [customRule ''off'' ''a'' ''path'' ''critical'' False] = []"
proof -
  have off: "\<not> enabled (customRule ''off'' ''a'' ''path'' ''critical'' False)"
    by (simp add: customRule_def)
  from disabled_rule_ignored[OF off, of "[]" "[]" node shortRequest defaultThresholds]
  show ?thesis using off disabled_short_run enabled_short_run
    by (simp add: setCustomRules_def)
qed

section \<open>Anonymization of client addresses\<close>

lemma lastIndexOf_suffix:
  "d \<noteq> c \<Longrightarrow> lastIndexOf (p @ [c, d]) c = Some (length p)"
  by (induction p) simp_all

lemma cutLast_suffix: "d \<noteq> c \<Longrightarrow> cutLast (p @ [c, d]) c = p"
  by (simp add: cutLast_def lastIndexOf_suffix substring0_def)

lemma cutLast_subset: "set (cutLast s c) \<subseteq> set s"
  by (auto simp: cutLast_def substring0_def split: option.splits dest: in_set_takeD)

lemma anonIp_idem: "anonIp (anonIp ip) = anonIp ip"
proof (cases "CHR '':'' \<in> set ip")
  case True
  then have "anonIp ip = cutLast ip CHR '':'' @ [CHR '':'', CHR ''0'']"
    by (simp add: anonIp_def includes'_def)
  moreover have "anonIp (cutLast ip CHR '':'' @ [CHR '':'', CHR ''0''])
                  = cutLast ip CHR '':'' @ [CHR '':'', CHR ''0'']"
    by (simp add: anonIp_def includes'_def cutLast_suffix)
  ultimately show ?thesis by simp
next
  case noColon: False
  show ?thesis
  proof (cases "CHR ''.'' \<in> set ip")
    case True
    with noColon have eq: "anonIp ip = cutLast ip CHR ''.'' @ [CHR ''.'', CHR ''0'']"
      by (simp add: anonIp_def includes'_def)
    from noColon cutLast_subset[of ip "CHR ''.''"]
    have "CHR '':'' \<notin> set (cutLast ip CHR ''.'')" by blast
    then have "anonIp (cutLast ip CHR ''.'' @ [CHR ''.'', CHR ''0''])
                  = cutLast ip CHR ''.'' @ [CHR ''.'', CHR ''0'']"
      by (simp add: anonIp_def includes'_def cutLast_suffix)
    with eq show ?thesis by simp
  next
    case False
    with noColon show ?thesis by (simp add: anonIp_def includes'_def)
  qed
qed

lemma anonIp_nonempty: "ip \<noteq> [] \<Longrightarrow> anonIp ip \<noteq> []"
  by (simp add: anonIp_def)

lemma anonymizeRow_idem:
  "anonymizeRow tid cutoff (anonymizeRow tid cutoff r) = anonymizeRow tid cutoff r"
  by (cases "req_clientIp r")
     (auto simp: anonymizeRow_def hasClientIp_def anonIp_idem anonIp_nonempty)

text \<open>
  C9. Anonymizing an address twice gives the same address as anonymizing it once, for
  every string: after the first pass the address ends in \<^verbatim>\<open>:0\<close> or \<^verbatim>\<open>.0\<close> (or has
  neither separator and was left alone), and the second pass cuts at that same last
  separator. The same holds for a stored row and for a whole run of \<open>anonymizeOldIPs\<close>
  repeated with the same tenant, window and clock. The last IPv4 octet and the last IPv6
  segment become 0.
\<close>

theorem anonymization_idempotent:
  "anonIp (anonIp ip) = anonIp ip
   \<and> anonymizeRow tid cutoff (anonymizeRow tid cutoff r) = anonymizeRow tid cutoff r
   \<and> snd (anonymizeOldIPs tid days now (snd (anonymizeOldIPs tid days now st)))
       = snd (anonymizeOldIPs tid days now st)
   \<and> anonIp ''192.168.1.77'' = ''192.168.1.0''
   \<and> anonIp ''2001:db8::ff00:42:8329'' = ''2001:db8::ff00:42:0''"
proof -
  have "snd (anonymizeOldIPs tid days now (snd (anonymizeOldIPs tid days now st)))
       = snd (anonymizeOldIPs tid days now st)"
    by (simp add: anonymizeOldIPs_def Let_def anonymizeRow_idem)
  moreover have "anonIp ''192.168.1.77'' = ''192.168.1.0''" by code_simp
  moreover have "anonIp ''2001:db8::ff00:42:8329'' = ''2001:db8::ff00:42:0''" by code_simp
  ultimately show ?thesis by (simp add: anonIp_idem anonymizeRow_idem)
qed

section \<open>Rate limiting\<close>

lemma rateLimit_denied:
  "store (ip @ ''-'' @ route) = Some r \<Longrightarrow> now < resetTime r \<Longrightarrow> maxRequests \<le> count r \<Longrightarrow>
     rateLimit windowMs maxRequests ip route now random store = (tooManyRequests, store)"
  by (simp add: rateLimit_def tooManyRequests_def)

lemma rateLimit_counted:
  "store (ip @ ''-'' @ route) = Some r \<Longrightarrow> now < resetTime r \<Longrightarrow> count r < maxRequests \<Longrightarrow>
     fst (rateLimit windowMs maxRequests ip route now random store) = Next
     \<and> snd (rateLimit windowMs maxRequests ip route now random store) (ip @ ''-'' @ route)
         = Some (r\<lparr>count := count r + 1\<rparr>)"
  by (simp add: rateLimit_def cleanupAndNext_def cleanup_def Let_def)

lemma rateLimit_fresh:
  "(case store (ip @ ''-'' @ route) of None \<Rightarrow> True | Some r \<Rightarrow> resetTime r \<le> now) \<Longrightarrow>
   0 \<le> windowMs \<Longrightarrow>
     fst (rateLimit windowMs maxRequests ip route now random store) = Next
     \<and> snd (rateLimit windowMs maxRequests ip route now random store) (ip @ ''-'' @ route)
         = Some \<lparr>count = 1, resetTime = now + windowMs\<rparr>"
  by (auto simp: rateLimit_def cleanupAndNext_def cleanup_def Let_def split: option.splits)

lemma rateLimit_other_key:
  "ip' @ ''-'' @ route' \<noteq> k \<Longrightarrow> store k = Some r \<Longrightarrow> now \<le> resetTime r \<Longrightarrow>
     snd (rateLimit windowMs maxRequests ip' route' now random store) k = Some r"
  by (auto simp: rateLimit_def cleanupAndNext_def cleanup_def Let_def split: option.splits)

lemma rateLimitCalls_Cons:
  "rateLimitCalls windowMs maxRequests ((ip, route, now, random) # calls) store
     = (fst (rateLimit windowMs maxRequests ip route now random store)
          # fst (rateLimitCalls windowMs maxRequests calls
                   (snd (rateLimit windowMs maxRequests ip route now random store))),
        snd (rateLimitCalls windowMs maxRequests calls
               (snd (rateLimit windowMs maxRequests ip route now random store))))"
  by (simp split: prod.splits)

lemma rateLimitCalls_window:
  "store k = Some \<lparr>count = c, resetTime = R\<rparr> \<Longrightarrow>
   \<forall>call \<in> set calls. callTime call < R \<Longrightarrow>
   c + int (length (filter (\<lambda>call. callKey call = k) calls)) \<le> maxRequests \<Longrightarrow>
     snd (rateLimitCalls windowMs maxRequests calls store) k
       = Some \<lparr>count = c + int (length (filter (\<lambda>call. callKey call = k) calls)),
               resetTime = R\<rparr>
     \<and> (\<forall>(out, call) \<in> set (zip (fst (rateLimitCalls windowMs maxRequests calls store)) calls).
           callKey call = k \<longrightarrow> out = Next)"
proof (induction calls arbitrary: store c)
  case Nil
  then show ?case by simp
next
  case (Cons call calls)
  obtain ip route now random where call: "call = (ip, route, now, random)"
    by (cases call) auto
  have ck: "callKey call = ip @ ''-'' @ route" using call by (simp add: callKey_def)
  let ?step = "rateLimit windowMs maxRequests ip route now random store"
  from Cons.prems(2) call have now: "now < R" by (simp add: callTime_def)
  from Cons.prems(2) have rest: "\<forall>call \<in> set calls. callTime call < R" by simp
  show ?case
  proof (cases "ip @ ''-'' @ route = k")
    case True
    with Cons.prems(3) ck have lt: "c < maxRequests" by simp
    have "store (ip @ ''-'' @ route) = Some \<lparr>count = c, resetTime = R\<rparr>"
      using Cons.prems(1) True by simp
    from rateLimit_counted[where store=store and ip=ip and route=route
          and r="\<lparr>count = c, resetTime = R\<rparr>" and now=now and maxRequests=maxRequests
          and windowMs=windowMs and random=random] this True now lt
    have out: "fst ?step = Next"
      and st: "snd ?step k = Some \<lparr>count = c + 1, resetTime = R\<rparr>" by simp_all
    from Cons.prems(3) ck True
    have le: "(c + 1) + int (length (filter (\<lambda>call. callKey call = k) calls)) \<le> maxRequests"
      by simp
    from Cons.IH[where store="snd ?step" and c="c + 1", OF st rest le] out ck True
    show ?thesis
      unfolding call rateLimitCalls_Cons using call by simp
  next
    case False
    from rateLimit_other_key[where store=store and ip'=ip and route'=route and k=k
          and r="\<lparr>count = c, resetTime = R\<rparr>" and now=now and windowMs=windowMs
          and maxRequests=maxRequests and random=random, OF False Cons.prems(1)] now
    have st: "snd ?step k = Some \<lparr>count = c, resetTime = R\<rparr>" by simp
    from Cons.prems(3) ck False
    have le: "c + int (length (filter (\<lambda>call. callKey call = k) calls)) \<le> maxRequests"
      by simp
    from Cons.IH[where store="snd ?step" and c=c, OF st rest le] ck False show ?thesis
      unfolding call rateLimitCalls_Cons using call by simp
  qed
qed

text \<open>
  C8. The limiter of the login route allows at most 5 calls per key and window of 60000
  milliseconds. Let a key have no entry, or an entry whose reset time has passed, at time
  \<open>t1\<close>, and let a call for the key arrive then, followed by any calls, for any keys and
  with any cleanups, all before \<open>t1 + 60000\<close>, four of them for the key. Then every one of
  these calls for the key is passed on, the entry of the key counts 5, and a sixth call
  for the key before \<open>t1 + 60000\<close> is answered with status 429 and leaves the whole store
  as it was. A call at or after the reset time of the entry is passed on and leaves the
  key with count 1 and a new window.
\<close>

theorem rateLimit_sixth_call_denied:
  assumes start: "case store (ip @ ''-'' @ route) of None \<Rightarrow> True | Some r \<Rightarrow> resetTime r \<le> t1"
    and window: "\<forall>call \<in> set calls. callTime call < t1 + 60000"
    and four: "length (filter (\<lambda>call. callKey call = ip @ ''-'' @ route) calls) = 4"
    and sixth: "t6 < t1 + 60000"
    and expired: "later (ip @ ''-'' @ route) = Some r' \<and> resetTime r' \<le> t7"
  shows "(\<forall>(out, call) \<in> set (zip (fst (rateLimitCalls 60000 5 ((ip, route, t1, r1) # calls) store))
                                 ((ip, route, t1, r1) # calls)).
            callKey call = ip @ ''-'' @ route \<longrightarrow> out = Next)
       \<and> snd (rateLimitCalls 60000 5 ((ip, route, t1, r1) # calls) store) (ip @ ''-'' @ route)
           = Some \<lparr>count = 5, resetTime = t1 + 60000\<rparr>
       \<and> loginRateLimit ip route t6 r6
            (snd (rateLimitCalls 60000 5 ((ip, route, t1, r1) # calls) store))
           = (tooManyRequests, snd (rateLimitCalls 60000 5 ((ip, route, t1, r1) # calls) store))
       \<and> fst (loginRateLimit ip route t7 r7 later) = Next
       \<and> snd (loginRateLimit ip route t7 r7 later) (ip @ ''-'' @ route)
           = Some \<lparr>count = 1, resetTime = t7 + 60000\<rparr>"
proof -
  let ?k = "ip @ ''-'' @ route"
  let ?first = "rateLimit 60000 5 ip route t1 r1 store"
  let ?st5 = "snd (rateLimitCalls 60000 5 calls (snd ?first))"
  from rateLimit_fresh[where store=store and ip=ip and route=route and now=t1
        and windowMs=60000 and maxRequests=5 and random=r1] start
  have out1: "fst ?first = Next"
    and st1: "snd ?first ?k = Some \<lparr>count = 1, resetTime = t1 + 60000\<rparr>" by simp_all
  have le: "1 + int (length (filter (\<lambda>call. callKey call = ?k) calls)) \<le> 5"
    using four by simp
  from rateLimitCalls_window[where store="snd ?first" and k="?k" and c=1
        and R="t1 + 60000" and calls=calls and maxRequests=5 and windowMs=60000,
        OF st1 window le]
  have st5: "?st5 ?k = Some \<lparr>count = 5, resetTime = t1 + 60000\<rparr>"
    and outs: "\<forall>(out, call) \<in> set (zip (fst (rateLimitCalls 60000 5 calls (snd ?first))) calls).
                 callKey call = ?k \<longrightarrow> out = Next"
    using four by simp_all
  have denied: "loginRateLimit ip route t6 r6 ?st5 = (tooManyRequests, ?st5)"
    unfolding loginRateLimit_def
    using rateLimit_denied[where store="?st5" and ip=ip and route=route
            and r="\<lparr>count = 5, resetTime = t1 + 60000\<rparr>" and now=t6 and maxRequests=5
            and windowMs=60000 and random=r6] st5 sixth
    by simp
  from expired have e: "case later ?k of None \<Rightarrow> True | Some r \<Rightarrow> resetTime r \<le> t7" by auto
  from rateLimit_fresh[where store=later and ip=ip and route=route and now=t7
        and windowMs=60000 and maxRequests=5 and random=r7] e
  have reset: "fst (loginRateLimit ip route t7 r7 later) = Next
       \<and> snd (loginRateLimit ip route t7 r7 later) ?k = Some \<lparr>count = 1, resetTime = t7 + 60000\<rparr>"
    by (simp add: loginRateLimit_def)
  show ?thesis
    unfolding rateLimitCalls_Cons using out1 outs st5 denied reset by (simp add: callKey_def)
qed

theorem rateLimit_sixth_call_denied_witness:
  "fst (rateLimitCalls 60000 5 ((''198.51.100.4'', ''/api/login'', 1000, 0.5) # loginCalls)
          Map.empty)
     = [Next, Next, Next, Next, Next, Next]
   \<and> snd (rateLimitCalls 60000 5 ((''198.51.100.4'', ''/api/login'', 1000, 0.5) # loginCalls)
          Map.empty) ''198.51.100.4-/api/login''
     = Some \<lparr>count = 5, resetTime = 61000\<rparr>
   \<and> loginRateLimit ''198.51.100.4'' ''/api/login'' 60999 0.001
        (snd (rateLimitCalls 60000 5
                ((''198.51.100.4'', ''/api/login'', 1000, 0.5) # loginCalls) Map.empty))
     = (tooManyRequests,
        snd (rateLimitCalls 60000 5
               ((''198.51.100.4'', ''/api/login'', 1000, 0.5) # loginCalls) Map.empty))
   \<and> fst (loginRateLimit ''198.51.100.4'' ''/api/login'' 61000 0.001 expiredStore) = Next
   \<and> snd (loginRateLimit ''198.51.100.4'' ''/api/login'' 61000 0.001 expiredStore)
         ''198.51.100.4-/api/login''
     = Some \<lparr>count = 1, resetTime = 121000\<rparr>"
proof -
  have start: "case (Map.empty :: RateLimitStore) (''198.51.100.4'' @ ''-'' @ ''/api/login'') of
                 None \<Rightarrow> True | Some r \<Rightarrow> resetTime r \<le> 1000"
    by simp
  have window: "\<forall>call \<in> set loginCalls. callTime call < 1000 + 60000"
    by (simp add: loginCalls_def callTime_def)
  have four: "length (filter (\<lambda>call. callKey call = ''198.51.100.4'' @ ''-'' @ ''/api/login'')
                        loginCalls) = 4"
    by (simp add: loginCalls_def callKey_def)
  have sixth: "(60999::int) < 1000 + 60000" by simp
  have expired: "expiredStore (''198.51.100.4'' @ ''-'' @ ''/api/login'')
                   = Some \<lparr>count = 5, resetTime = 61000\<rparr>
                 \<and> resetTime \<lparr>count = 5, resetTime = 61000\<rparr> \<le> 61000"
    by (simp add: expiredStore_def)
  have outs: "fst (rateLimitCalls 60000 5
                     ((''198.51.100.4'', ''/api/login'', 1000, 0.5) # loginCalls) Map.empty)
                = [Next, Next, Next, Next, Next, Next]"
    by (simp add: loginCalls_def rateLimit_def cleanupAndNext_def cleanup_def Let_def
             split: prod.splits)
  from rateLimit_sixth_call_denied[where store=Map.empty and ip="''198.51.100.4''" and route="''/api/login''"
        and ?t1.0=1000 and calls=loginCalls and ?t6.0=60999 and later=expiredStore
        and r'="\<lparr>count = 5, resetTime = 61000\<rparr>" and ?t7.0=61000 and ?r1.0="0.5"
        and ?r6.0="0.001" and ?r7.0="0.001",
        OF start window four sixth expired]
  show ?thesis using outs by simp
qed

section \<open>Ingestion\<close>

lemma storeAndAnswer_result:
  "storeAndAnswer now ids tenant tid req analysis preview srv1 = (resp, srv') \<Longrightarrow>
     resp = Json 200 (JObj [(''requestId'', JStr (fst ids)),
                      (''action'', JStr (actionName (action analysis))),
                      (''score'', JNum (score analysis)),
                      (''matchCount'', JNum (int (length (matches analysis))))])
     \<and> requests (db srv') = requests (db srv1)
           @ [requestRecord now (fst ids) tenant tid req analysis preview]
     \<and> analyses (db srv') = analyses (db srv1)
           @ [analysisRecord (fst (snd ids))
                (requestRecord now (fst ids) tenant tid req analysis preview) analysis]
     \<and> wafEngine srv' = wafEngine srv1"
  by (cases ids)
     (auto simp: storeAndAnswer_def Let_def createRequest_def createAnalysis_def
        createAlert_def broadcastRequest_def broadcastAlert_def requestRecord_def
        split: if_splits)

lemma analyseAndStore_success:
  assumes "analyseAndStore rt now ids tenant tid req srv = (Json 200 payload, srv')"
  shows "\<exists>analysis preview.
           analyzeRequest rt (wafEngine srv') req
                 (policyThresholds (getPolicyByTenant (db srv) tid)) = Inr analysis
           \<and> wafEngine srv' = setCustomRules (map WafRule.truncate
                 (getRulesByTenant (db srv) None @ getRulesByTenant (db srv) (Some tid)))
           \<and> bodyPreview (body req) = Inr preview
           \<and> storeAndAnswer now ids tenant tid req analysis preview
                (srv\<lparr>wafEngine := setCustomRules (map WafRule.truncate
                 (getRulesByTenant (db srv) None @ getRulesByTenant (db srv) (Some tid)))\<rparr>)
               = (Json 200 payload, srv')"
proof -
  let ?srv1 = "srv\<lparr>wafEngine := setCustomRules (map WafRule.truncate
                 (getRulesByTenant (db srv) None @ getRulesByTenant (db srv) (Some tid)))\<rparr>"
  let ?th = "policyThresholds (getPolicyByTenant (db srv) tid)"
  from assms obtain analysis where
    a: "analyzeRequest rt (wafEngine ?srv1) req ?th = Inr analysis"
    by (cases "analyzeRequest rt (wafEngine ?srv1) req ?th")
       (auto simp: analyseAndStore_def Let_def errorResponse_def)
  from assms a obtain preview where p: "bodyPreview (body req) = Inr preview"
    by (cases "bodyPreview (body req)")
       (auto simp: analyseAndStore_def Let_def errorResponse_def)
  from assms a p have s: "storeAndAnswer now ids tenant tid req analysis preview ?srv1
               = (Json 200 payload, srv')"
    by (simp add: analyseAndStore_def Let_def)
  from storeAndAnswer_result[OF s] have "wafEngine srv' = wafEngine ?srv1" by simp
  with a p s show ?thesis by simp
qed

lemma ingress_success:
  assumes "ingress rt now ids b srv = (Json 200 payload, srv')"
  shows "\<exists>tid req tenant.
           body_tenantId b = Some tid \<and> body_request b = Some req
           \<and> getTenant (db srv) tid = Some tenant \<and> tenant_isActive tenant
           \<and> analyseAndStore rt now ids tenant tid req srv = (Json 200 payload, srv')"
  using assms
  by (auto simp: ingress_def errorResponse_def split: option.splits if_splits)


lemma union_ingress:
  "ingress node 1700000000000 (''req-1'', ''an-1'', ''al-1'')
     \<lparr>body_tenantId = Some ''acme'', body_request = Some unionRequest\<rparr> exampleServer
   = (Json 200 (JObj [(''requestId'', JStr ''req-1''), (''action'', JStr ''block''),
                      (''score'', JNum 75), (''matchCount'', JNum 1)]),
      unionServer)"
  by code_simp

text \<open>
  C5. An ingestion call whose tenant id resolves to no tenant, or to a tenant that is not
  active, is answered with status 404 (tenant not found or inactive) and changes nothing
  on the server: no request, analysis or alert record is written, nothing is broadcast,
  and the rules of the engine are not replaced. The answer is 400 instead when the call
  lacks the request or its tenant id is the empty string; the server is unchanged then
  too.
\<close>

theorem ingress_unknown_tenant:
  "(case getTenant (db srv) tid of None \<Rightarrow> True | Some t \<Rightarrow> \<not> tenant_isActive t) \<Longrightarrow>
   body_tenantId b = Some tid \<Longrightarrow>
     ingress rt now ids b srv
       = (if tid = [] \<or> body_request b = None
          then errorResponse 400 ''tenantId and request are required''
          else errorResponse 404 ''Tenant not found or inactive'', srv)
     \<and> requests (db (snd (ingress rt now ids b srv))) = requests (db srv)
     \<and> analyses (db (snd (ingress rt now ids b srv))) = analyses (db srv)
     \<and> alerts (db (snd (ingress rt now ids b srv))) = alerts (db srv)
     \<and> sseLog (snd (ingress rt now ids b srv)) = sseLog srv"
  by (auto simp: ingress_def split: option.splits)

theorem ingress_unknown_tenant_witness:
  "getTenant (db exampleServer) ''dormant'' = Some dormant \<and> \<not> tenant_isActive dormant
   \<and> getTenant (db exampleServer) ''nobody'' = None
   \<and> ingress node 1700000000000 (''req-1'', ''an-1'', ''al-1'')
        \<lparr>body_tenantId = Some ''dormant'', body_request = Some unionRequest\<rparr> exampleServer
      = (errorResponse 404 ''Tenant not found or inactive'', exampleServer)
   \<and> ingress node 1700000000000 (''req-1'', ''an-1'', ''al-1'')
        \<lparr>body_tenantId = Some ''nobody'', body_request = Some unionRequest\<rparr> exampleServer
      = (errorResponse 404 ''Tenant not found or inactive'', exampleServer)"
proof -
  have d: "getTenant (db exampleServer) ''dormant'' = Some dormant"
    by (simp add: getTenant_def exampleServer_def acme_def dormant_def)
  have off: "\<not> tenant_isActive dormant" by (simp add: dormant_def)
  have n: "getTenant (db exampleServer) ''nobody'' = None"
    by (simp add: getTenant_def exampleServer_def acme_def dormant_def)
  from ingress_unknown_tenant[where srv=exampleServer and tid="''dormant''"
        and b="\<lparr>body_tenantId = Some ''dormant'', body_request = Some unionRequest\<rparr>"
        and rt=node and now=1700000000000 and ids="(''req-1'', ''an-1'', ''al-1'')"]
       ingress_unknown_tenant[where srv=exampleServer and tid="''nobody''"
        and b="\<lparr>body_tenantId = Some ''nobody'', body_request = Some unionRequest\<rparr>"
        and rt=node and now=1700000000000 and ids="(''req-1'', ''an-1'', ''al-1'')"]
       d off n
  show ?thesis by simp
qed

text \<open>
  C10. An ingestion call answered with status 200 has appended one request record and one
  analysis record for it. When the action of the analysis is block, the request is stored
  with action \<open>deny\<close> and response code 403 and the analysis with suggested and final
  action \<open>deny\<close>; for challenge the stored action is \<open>challenge\<close> and the code 429;
  otherwise the stored action is \<open>allow\<close> and the code 200. The stored actions have no
  value \<open>block\<close>. The blocked requests of the dashboard are the stored requests of the last
  24 hours whose action is \<open>deny\<close>.
\<close>

theorem ingress_stores_deny:
  "ingress rt now ids b srv = (Json 200 payload, srv') \<Longrightarrow>
     (\<exists>tid req analysis r a.
        body_tenantId b = Some tid \<and> body_request b = Some req
        \<and> analyzeRequest rt (wafEngine srv') req
              (policyThresholds (getPolicyByTenant (db srv) tid)) = Inr analysis
        \<and> payload = JObj [(''requestId'', JStr (req_id r)),
                           (''action'', JStr (actionName (action analysis))),
                           (''score'', JNum (score analysis)),
                           (''matchCount'', JNum (int (length (matches analysis))))]
        \<and> requests (db srv') = requests (db srv) @ [r]
        \<and> analyses (db srv') = analyses (db srv) @ [a]
        \<and> analysis_requestId a = req_id r
        \<and> (if action analysis = Block
            then req_actionTaken r = deny \<and> analysis_suggestedAction a = deny
                 \<and> analysis_finalAction a = deny \<and> req_responseCode r = 403
            else if action analysis = Challenge
            then req_actionTaken r = challenge \<and> analysis_suggestedAction a = challenge
                 \<and> analysis_finalAction a = challenge \<and> req_responseCode r = 429
            else req_actionTaken r = allow \<and> analysis_suggestedAction a = allow
                 \<and> analysis_finalAction a = allow \<and> req_responseCode r = 200))
     \<and> blockedRequests (getDashboardStats t (db srv'))
         = length (filter (\<lambda>x. t - dayMs \<le> req_timestamp x \<and> req_actionTaken x = deny)
                     (requests (db srv')))"
proof -
  assume run: "ingress rt now ids b srv = (Json 200 payload, srv')"
  from ingress_success[OF run] obtain tid req tenant where
    tid: "body_tenantId b = Some tid" and req: "body_request b = Some req"
    and stage: "analyseAndStore rt now ids tenant tid req srv = (Json 200 payload, srv')"
    by blast
  from analyseAndStore_success[OF stage] obtain analysis preview where
    an: "analyzeRequest rt (wafEngine srv') req
           (policyThresholds (getPolicyByTenant (db srv) tid)) = Inr analysis"
    and st: "storeAndAnswer now ids tenant tid req analysis preview
               (srv\<lparr>wafEngine := setCustomRules (map WafRule.truncate
                 (getRulesByTenant (db srv) None @ getRulesByTenant (db srv) (Some tid)))\<rparr>)
             = (Json 200 payload, srv')"
    by blast
  let ?r = "requestRecord now (fst ids) tenant tid req analysis preview"
  let ?a = "analysisRecord (fst (snd ids)) ?r analysis"
  from storeAndAnswer_result[OF st] have
    pay: "payload = JObj [(''requestId'', JStr (req_id ?r)),
                           (''action'', JStr (actionName (action analysis))),
                           (''score'', JNum (score analysis)),
                           (''matchCount'', JNum (int (length (matches analysis))))]"
    and rs: "requests (db srv') = requests (db srv) @ [?r]"
    and as: "analyses (db srv') = analyses (db srv) @ [?a]"
    by (simp_all add: requestRecord_def)
  have link: "analysis_requestId ?a = req_id ?r" by (simp add: analysisRecord_def)
  have stored: "if action analysis = Block
            then req_actionTaken ?r = deny \<and> analysis_suggestedAction ?a = deny
                 \<and> analysis_finalAction ?a = deny \<and> req_responseCode ?r = 403
            else if action analysis = Challenge
            then req_actionTaken ?r = challenge \<and> analysis_suggestedAction ?a = challenge
                 \<and> analysis_finalAction ?a = challenge \<and> req_responseCode ?r = 429
            else req_actionTaken ?r = allow \<and> analysis_suggestedAction ?a = allow
                 \<and> analysis_finalAction ?a = allow \<and> req_responseCode ?r = 200"
    by (cases "action analysis")
       (simp_all add: requestRecord_def analysisRecord_def storedAction_def responseCodeOf_def)
  have dash: "blockedRequests (getDashboardStats t (db srv'))
         = length (filter (\<lambda>x. t - dayMs \<le> req_timestamp x \<and> req_actionTaken x = deny)
                     (requests (db srv')))"
    by (simp add: getDashboardStats_def countRequests_def Let_def)
  from tid req an pay rs as link stored dash show ?thesis by blast
qed

theorem ingress_stores_deny_witness:
  "ingress node 1700000000000 (''req-1'', ''an-1'', ''al-1'')
     \<lparr>body_tenantId = Some ''acme'', body_request = Some unionRequest\<rparr> exampleServer
   = (Json 200 (JObj [(''requestId'', JStr ''req-1''), (''action'', JStr ''block''),
                      (''score'', JNum 75), (''matchCount'', JNum 1)]),
      unionServer)
   \<and> map req_actionTaken (requests (db unionServer)) = [deny]
   \<and> map req_responseCode (requests (db unionServer)) = [403]
   \<and> map analysis_finalAction (analyses (db unionServer)) = [deny]
   \<and> blockedRequests (getDashboardStats 1700000001000 (db unionServer)) = 1"
proof -
  have stored: "map req_actionTaken (requests (db unionServer)) = [deny]
    \<and> map req_responseCode (requests (db unionServer)) = [403]
    \<and> map analysis_finalAction (analyses (db unionServer)) = [deny]"
    by (simp add: unionServer_def unionStored_def unionAnalysis_def)
  have "length (filter (\<lambda>x. 1700000001000 - dayMs \<le> req_timestamp x
                            \<and> req_actionTaken x = deny) (requests (db unionServer))) = 1"
    by (simp add: unionServer_def unionStored_def dayMs_def)
  with ingress_stores_deny[OF union_ingress, of 1700000001000] union_ingress stored
  show ?thesis by simp
qed

section \<open>Malformed patterns\<close>










section \<open>The content a rule is tested against\<close>

lemma home_serialized:
  "sc_request (searchableContent node homeRequest) = homeSerialized"
  by code_simp

lemma full_request_run:
  "analyzeRequest node [customRule ''whole'' ''GET'' ''full-request'' ''critical'' True]
     homeRequest defaultThresholds
   = Inr \<lparr>action = Allow, score = 0, matches = [], reason = Passed\<rparr>"
  by code_simp

lemma request_run:
  "analyzeRequest node [customRule ''whole'' ''GET'' ''request'' ''critical'' True]
     homeRequest defaultThresholds
   = Inr \<lparr>action = Block, score = 100,
          matches = [\<lparr>ruleId = ''whole'', field' = ''request'', value' = homeSerialized,
                      severity' = ''critical''\<rparr>],
          reason = ExceededBlock 100 70\<rparr>"
  by code_simp

lemma get_matches_serialized:
  "map_option (\<lambda>test. test homeSerialized) (RegExp_i ''GET'') = Some True"
  by code_simp

text \<open>
  C7, as the claim states it, fails: for the request to \<^verbatim>\<open>/home\<close> the content looked
  up for the target field \<^verbatim>\<open>full-request\<close> is the empty string, although the
  serialization of the request is not empty and contains \<^verbatim>\<open>GET\<close>. An enabled rule
  with pattern \<^verbatim>\<open>GET\<close> and that target field does not fire; the same rule with target
  field \<^verbatim>\<open>request\<close> fires.
\<close>

theorem full_request_counterexample:
  "targetContent node (searchableContent node homeRequest) ''full-request'' = Text []
   \<and> sc_request (searchableContent node homeRequest) = homeSerialized
   \<and> map_option (\<lambda>test. test homeSerialized) (RegExp_i ''GET'') = Some True
   \<and> analyzeRequest node [customRule ''whole'' ''GET'' ''full-request'' ''critical'' True]
        homeRequest defaultThresholds
      = Inr \<lparr>action = Allow, score = 0, matches = [], reason = Passed\<rparr>
   \<and> analyzeRequest node [customRule ''whole'' ''GET'' ''request'' ''critical'' True]
        homeRequest defaultThresholds
      = Inr \<lparr>action = Block, score = 100,
             matches = [\<lparr>ruleId = ''whole'', field' = ''request'', value' = homeSerialized,
                         severity' = ''critical''\<rparr>],
             reason = ExceededBlock 100 70\<rparr>"
proof -
  have "targetContent node (searchableContent node homeRequest) ''full-request'' = Text []"
    by (simp add: targetContent_def node_def objectPrototype_def)
  with home_serialized get_matches_serialized full_request_run request_run
  show ?thesis by simp
qed

lemma reordered_serialized:
  "sc_request (searchableContent node reorderedRequest) = reorderedSerialized"
  by code_simp

lemma trace_tests:
  "map_option (\<lambda>test. [test homeSerialized, test reorderedSerialized, test []])
     (RegExp_i ''trace'') = Some [False, True, False]"
  by code_simp

lemma method_first_tests:
  "map_option (\<lambda>test. [test homeSerialized, test reorderedSerialized, test []])
     (RegExp_i ''^..method'') = Some [True, False, False]"
  by code_simp

text \<open>
  C7, amended. The serialization of the entire request is the content of the target field
  named \<^verbatim>\<open>request\<close>: it is \<^verbatim>\<open>JSON.stringify\<close> of the received object, with
  every own property, declared or not, in the order of the object, and an enabled rule
  with that target field fires exactly when its pattern compiles and matches it. A target
  field that is none of \<^verbatim>\<open>path\<close>, \<^verbatim>\<open>query\<close>, \<^verbatim>\<open>body\<close>, \<^verbatim>\<open>headers\<close>,
  \<^verbatim>\<open>request\<close> and no inherited property has the empty string as its content, and an
  enabled rule with such a target field fires exactly when its pattern compiles and
  matches the empty string; \<^verbatim>\<open>full-request\<close> is such a name. The matches of a result
  are those of the rules that fire, in the order of the rule list.
\<close>

theorem request_field_is_whole_request:
  "targetContent rt (searchableContent rt req) ''request''
     = Text (JSON_stringify rt (JObj (map propertyEntry req)))
   \<and> (enabled rule \<and> targetField rule = ''request''
      \<longrightarrow> fires rt (searchableContent rt req) rule
          = (case RegExp rt (pattern rule) of
               None \<Rightarrow> False
             | Some test \<Rightarrow> test (JSON_stringify rt (JObj (map propertyEntry req)))))
   \<and> (key \<notin> set [''path'', ''query'', ''body'', ''headers'', ''request'']
       \<and> inherited rt key = None
      \<longrightarrow> targetContent rt sc key = Text [])
   \<and> (enabled rule
       \<and> targetField rule \<notin> set [''path'', ''query'', ''body'', ''headers'', ''request'']
       \<and> inherited rt (targetField rule) = None
      \<longrightarrow> fires rt sc rule
          = (case RegExp rt (pattern rule) of None \<Rightarrow> False | Some test \<Rightarrow> test []))
   \<and> ''full-request'' \<notin> set [''path'', ''query'', ''body'', ''headers'', ''request'']
   \<and> (inherited rt ''full-request'' = None
      \<longrightarrow> targetContent rt (searchableContent rt req) ''full-request'' = Text [])
   \<and> (inherited rt ''full-request'' = None \<and> enabled rule
       \<and> targetField rule = ''full-request''
      \<longrightarrow> fires rt (searchableContent rt req) rule
          = (case RegExp rt (pattern rule) of None \<Rightarrow> False | Some test \<Rightarrow> test []))
   \<and> (analyzeRequest rt eng req th = Inr res
      \<longrightarrow> matches res = map (matchOf rt (searchableContent rt req))
                           (filter (fires rt (searchableContent rt req)) (allRules eng)))"
proof -
  have whole: "targetContent rt (searchableContent rt req) ''request''
                 = Text (JSON_stringify rt (JObj (map propertyEntry req)))"
    by (simp add: targetContent_def searchableContent_def requestJson_def)
  have fallback: "\<And>k c. k \<notin> set [''path'', ''query'', ''body'', ''headers'', ''request'']
       \<and> inherited rt k = None
      \<longrightarrow> targetContent rt c k = Text []"
    by (simp add: targetContent_def)
  have name: "''full-request'' \<notin> set [''path'', ''query'', ''body'', ''headers'', ''request'']"
    by simp
  have run: "analyzeRequest rt eng req th = Inr res
      \<longrightarrow> matches res = map (matchOf rt (searchableContent rt req))
                           (filter (fires rt (searchableContent rt req)) (allRules eng))"
  proof
    assume "analyzeRequest rt eng req th = Inr res"
    from analyzeRequest_Inr[OF this] obtain ms t where
      s: "scanRules rt (searchableContent rt req) (allRules eng) [] 0 = Inr (ms, t)"
      and r: "matches res = ms" by auto
    from scanRules_result[OF s] r
    show "matches res = map (matchOf rt (searchableContent rt req))
                           (filter (fires rt (searchableContent rt req)) (allRules eng))"
      by simp
  qed
  have on_request: "enabled rule \<and> targetField rule = ''request''
      \<longrightarrow> fires rt (searchableContent rt req) rule
          = (case RegExp rt (pattern rule) of
               None \<Rightarrow> False
             | Some test \<Rightarrow> test (JSON_stringify rt (JObj (map propertyEntry req))))"
    using whole by (auto simp: fires_def split: option.splits)
  have on_other: "\<And>c. enabled rule
       \<and> targetField rule \<notin> set [''path'', ''query'', ''body'', ''headers'', ''request'']
       \<and> inherited rt (targetField rule) = None
      \<longrightarrow> fires rt c rule
          = (case RegExp rt (pattern rule) of None \<Rightarrow> False | Some test \<Rightarrow> test [])"
  proof
    fix c
    assume h: "enabled rule
       \<and> targetField rule \<notin> set [''path'', ''query'', ''body'', ''headers'', ''request'']
       \<and> inherited rt (targetField rule) = None"
    with fallback[of "targetField rule" c]
    have "targetContent rt c (targetField rule) = Text []" by blast
    with h show "fires rt c rule
          = (case RegExp rt (pattern rule) of None \<Rightarrow> False | Some test \<Rightarrow> test [])"
      by (auto simp: fires_def split: option.splits)
  qed
  have full: "inherited rt ''full-request'' = None
      \<longrightarrow> targetContent rt (searchableContent rt req) ''full-request'' = Text []"
    using fallback[of "''full-request''" "searchableContent rt req"] name by blast
  have on_full: "inherited rt ''full-request'' = None \<and> enabled rule
       \<and> targetField rule = ''full-request''
      \<longrightarrow> fires rt (searchableContent rt req) rule
          = (case RegExp rt (pattern rule) of None \<Rightarrow> False | Some test \<Rightarrow> test [])"
    using on_other[of "searchableContent rt req"] name by auto
  from whole on_request fallback[of key sc] on_other[of sc] name full on_full run
  show ?thesis by blast
qed

theorem request_field_is_whole_request_witness:
  "inherited node ''full-request'' = None \<and> inherited node ''user-agent'' = None
   \<and> targetContent node (searchableContent node homeRequest) ''request'' = Text homeSerialized
   \<and> targetContent node (searchableContent node reorderedRequest) ''request''
       = Text reorderedSerialized
   \<and> targetContent node (searchableContent node homeRequest) ''full-request'' = Text []
   \<and> targetContent node (searchableContent node homeRequest) ''user-agent'' = Text []
   \<and> fires node (searchableContent node homeRequest)
        (customRule ''order'' ''^..method'' ''request'' ''low'' True)
   \<and> \<not> fires node (searchableContent node reorderedRequest)
          (customRule ''order'' ''^..method'' ''request'' ''low'' True)
   \<and> fires node (searchableContent node reorderedRequest)
        (customRule ''further'' ''trace'' ''request'' ''low'' True)
   \<and> \<not> fires node (searchableContent node homeRequest)
          (customRule ''further'' ''trace'' ''request'' ''low'' True)
   \<and> \<not> fires node (searchableContent node reorderedRequest)
          (customRule ''further'' ''trace'' ''full-request'' ''low'' True)
   \<and> \<not> fires node (searchableContent node reorderedRequest)
          (customRule ''further'' ''trace'' ''user-agent'' ''low'' True)"
proof -
  let ?order = "customRule ''order'' ''^..method'' ''request'' ''low'' True"
  let ?further = "customRule ''further'' ''trace'' ''request'' ''low'' True"
  let ?full = "customRule ''further'' ''trace'' ''full-request'' ''low'' True"
  let ?agent = "customRule ''further'' ''trace'' ''user-agent'' ''low'' True"
  let ?home = "searchableContent node homeRequest"
  let ?re = "searchableContent node reorderedRequest"
  let ?none = "\<lparr>action = Allow, score = 0, matches = [], reason = Passed\<rparr>"
  have inh: "inherited node ''full-request'' = None" "inherited node ''user-agent'' = None"
    by (simp_all add: node_def objectPrototype_def)
  have other: "''user-agent'' \<notin> set [''path'', ''query'', ''body'', ''headers'', ''request'']"
    by simp
  have str: "JSON_stringify node (JObj (map propertyEntry homeRequest)) = homeSerialized"
    "JSON_stringify node (JObj (map propertyEntry reorderedRequest)) = reorderedSerialized"
    using home_serialized reordered_serialized
    by (simp_all add: searchableContent_def requestJson_def)
  have fields: "enabled ?order" "targetField ?order = ''request''"
    "enabled ?further" "targetField ?further = ''request''"
    "enabled ?full" "targetField ?full = ''full-request''"
    "enabled ?agent" "targetField ?agent = ''user-agent''"
    by (simp_all add: customRule_def)
  have order_tests:
    "case RegExp node (pattern ?order) of None \<Rightarrow> False
     | Some test \<Rightarrow> test (JSON_stringify node (JObj (map propertyEntry homeRequest)))"
    "\<not> (case RegExp node (pattern ?order) of None \<Rightarrow> False
        | Some test \<Rightarrow> test (JSON_stringify node (JObj (map propertyEntry reorderedRequest))))"
    unfolding str using method_first_tests
    by (auto simp: customRule_def node_def split: option.splits)
  have further_tests:
    "case RegExp node (pattern ?further) of None \<Rightarrow> False
     | Some test \<Rightarrow> test (JSON_stringify node (JObj (map propertyEntry reorderedRequest)))"
    "\<not> (case RegExp node (pattern ?further) of None \<Rightarrow> False
        | Some test \<Rightarrow> test (JSON_stringify node (JObj (map propertyEntry homeRequest))))"
    "\<not> (case RegExp node (pattern ?full) of None \<Rightarrow> False | Some test \<Rightarrow> test [])"
    "\<not> (case RegExp node (pattern ?agent) of None \<Rightarrow> False | Some test \<Rightarrow> test [])"
    unfolding str using trace_tests
    by (auto simp: customRule_def node_def split: option.splits)
  note h_order = request_field_is_whole_request[where rt=node and req=homeRequest
      and rule="?order" and key="''user-agent''" and sc="?home" and eng="[]"
      and th=defaultThresholds and res="?none"]
  note r_order = request_field_is_whole_request[where rt=node and req=reorderedRequest
      and rule="?order" and key="''user-agent''" and sc="?re" and eng="[]"
      and th=defaultThresholds and res="?none"]
  note h_further = request_field_is_whole_request[where rt=node and req=homeRequest
      and rule="?further" and key="''user-agent''" and sc="?home" and eng="[]"
      and th=defaultThresholds and res="?none"]
  note r_further = request_field_is_whole_request[where rt=node and req=reorderedRequest
      and rule="?further" and key="''user-agent''" and sc="?re" and eng="[]"
      and th=defaultThresholds and res="?none"]
  note r_full = request_field_is_whole_request[where rt=node and req=reorderedRequest
      and rule="?full" and key="''user-agent''" and sc="?re" and eng="[]"
      and th=defaultThresholds and res="?none"]
  note r_agent = request_field_is_whole_request[where rt=node and req=reorderedRequest
      and rule="?agent" and key="''user-agent''" and sc="?re" and eng="[]"
      and th=defaultThresholds and res="?none"]
  from h_order have "targetContent node ?home ''request''
      = Text (JSON_stringify node (JObj (map propertyEntry homeRequest)))" by blast
  then have c1: "targetContent node ?home ''request'' = Text homeSerialized"
    unfolding str .
  from r_order have "targetContent node ?re ''request''
      = Text (JSON_stringify node (JObj (map propertyEntry reorderedRequest)))" by blast
  then have c2: "targetContent node ?re ''request'' = Text reorderedSerialized"
    unfolding str .
  from h_order inh have c3: "targetContent node ?home ''full-request'' = Text []" by blast
  from h_order inh other have c4: "targetContent node ?home ''user-agent'' = Text []"
    by blast
  from h_order fields have "fires node ?home ?order
      = (case RegExp node (pattern ?order) of None \<Rightarrow> False
         | Some test \<Rightarrow> test (JSON_stringify node (JObj (map propertyEntry homeRequest))))"
    by blast
  with order_tests have c5: "fires node ?home ?order" by blast
  from r_order fields have "fires node ?re ?order
      = (case RegExp node (pattern ?order) of None \<Rightarrow> False
         | Some test \<Rightarrow> test (JSON_stringify node (JObj (map propertyEntry reorderedRequest))))"
    by blast
  with order_tests have c6: "\<not> fires node ?re ?order" by blast
  from r_further fields have "fires node ?re ?further
      = (case RegExp node (pattern ?further) of None \<Rightarrow> False
         | Some test \<Rightarrow> test (JSON_stringify node (JObj (map propertyEntry reorderedRequest))))"
    by blast
  with further_tests have c7: "fires node ?re ?further" by blast
  from h_further fields have "fires node ?home ?further
      = (case RegExp node (pattern ?further) of None \<Rightarrow> False
         | Some test \<Rightarrow> test (JSON_stringify node (JObj (map propertyEntry homeRequest))))"
    by blast
  with further_tests have c8: "\<not> fires node ?home ?further" by blast
  from r_full inh fields have "fires node ?re ?full
      = (case RegExp node (pattern ?full) of None \<Rightarrow> False | Some test \<Rightarrow> test [])"
    by blast
  with further_tests have c9: "\<not> fires node ?re ?full" by blast
  have agent_other:
    "targetField ?agent \<notin> set [''path'', ''query'', ''body'', ''headers'', ''request'']"
    "inherited node (targetField ?agent) = None"
    using inh by (simp_all add: customRule_def)
  from r_agent agent_other fields have "fires node ?re ?agent
      = (case RegExp node (pattern ?agent) of None \<Rightarrow> False | Some test \<Rightarrow> test [])"
    by blast
  with further_tests have c10: "\<not> fires node ?re ?agent" by blast
  from inh c1 c2 c3 c4 c5 c6 c7 c8 c9 c10 show ?thesis by blast
qed

end
